theory Spec2Isabelle
  imports
    Complex_Main
    "HOL-Library.Word"
    "HOL-Library.Char_ord"
    "HOL-Library.List_Lexorder"
    "HOL-Library.Log_Nat"
begin

unbundle bit_operations_syntax

section \<open>flora2influx: sensor protocol decoder, device session, discovery and polling\<close>

text \<open>
  A shallow embedding of \<^verbatim>\<open>device/device.go\<close> and of the polling loop of
  \<^verbatim>\<open>main.go\<close>. Go's \<^verbatim>\<open>uint8\<close>, \<^verbatim>\<open>uint16\<close> and \<^verbatim>\<open>int16\<close> are words
  of that width (an \<^verbatim>\<open>int16\<close> is read with \<open>sint\<close>), a Go string is the list of its
  bytes as characters, and a function that mutates \<^verbatim>\<open>*Readings\<close> takes the record
  and returns the updated one.
\<close>

subsection \<open>Errors\<close>

text \<open>
  Go's \<^verbatim>\<open>error\<close> values that occur: \<^verbatim>\<open>io.EOF\<close> and \<^verbatim>\<open>io.ErrUnexpectedEOF\<close>
  (returned by \<^verbatim>\<open>binary.Read\<close>), \<^verbatim>\<open>fmt.Errorf\<close> with its message,
  \<^verbatim>\<open>errors.Wrap\<close>, and the opaque errors of the Bluetooth transport.
\<close>

datatype error =
    EOF
  | ErrUnexpectedEOF
  | Errorf string
  | TransportError nat
  | Wrap error string

subsection \<open>bytes.Buffer and encoding/binary\<close>

type_synonym byte = "8 word"
type_synonym uint8 = "8 word"
type_synonym uint16 = "16 word"
type_synonym int16 = "16 word"

text \<open>A \<^verbatim>\<open>bytes.Buffer\<close> is modelled by its unread bytes.\<close>

type_synonym Buffer = "byte list"

text \<open>\<^verbatim>\<open>buf.Next(n)\<close> skips \<open>n\<close> bytes, or all that are left when fewer remain.\<close>

definition Buffer_Next :: "nat \<Rightarrow> Buffer \<Rightarrow> Buffer" where
  "Buffer_Next n buf = drop n buf"

text \<open>\<^verbatim>\<open>buf.String()\<close>: the unread bytes as a string.\<close>

definition Buffer_String :: "Buffer \<Rightarrow> string" where
  "Buffer_String buf = map (\<lambda>b. char_of (unat b)) buf"

text \<open>\<^verbatim>\<open>binary.LittleEndian.Uint16\<close>: \<^verbatim>\<open>uint16(b[0]) | uint16(b[1])<<8\<close>.\<close>

definition LittleEndian_Uint16 :: "byte \<Rightarrow> byte \<Rightarrow> uint16" where
  "LittleEndian_Uint16 b0 b1 = ucast b0 OR push_bit 8 (ucast b1)"

text \<open>
  \<^verbatim>\<open>binary.Read(buf, binary.LittleEndian, &v)\<close> for the three target types of the
  decoder. It reads the size of the target with \<^verbatim>\<open>io.ReadFull\<close>; when the buffer
  holds too few bytes it consumes what is there, returns \<^verbatim>\<open>io.EOF\<close> (nothing read)
  or \<^verbatim>\<open>io.ErrUnexpectedEOF\<close> (some read), and leaves the target as it was. The
  result is the returned error, the target's value afterwards and the buffer
  afterwards; the second argument is the target's value before the call.
\<close>

fun binary_Read_uint8 :: "Buffer \<Rightarrow> uint8 \<Rightarrow> error option \<times> uint8 \<times> Buffer" where
  "binary_Read_uint8 [] v = (Some EOF, v, [])"
| "binary_Read_uint8 (b # rest) v = (None, b, rest)"

fun binary_Read_uint16 :: "Buffer \<Rightarrow> uint16 \<Rightarrow> error option \<times> uint16 \<times> Buffer" where
  "binary_Read_uint16 [] v = (Some EOF, v, [])"
| "binary_Read_uint16 [b0] v = (Some ErrUnexpectedEOF, v, [])"
| "binary_Read_uint16 (b0 # b1 # rest) v = (None, LittleEndian_Uint16 b0 b1, rest)"

fun binary_Read_int16 :: "Buffer \<Rightarrow> int16 \<Rightarrow> error option \<times> int16 \<times> Buffer" where
  "binary_Read_int16 [] v = (Some EOF, v, [])"
| "binary_Read_int16 [b0] v = (Some ErrUnexpectedEOF, v, [])"
| "binary_Read_int16 (b0 # b1 # rest) v = (None, LittleEndian_Uint16 b0 b1, rest)"

subsection \<open>float64\<close>

text \<open>
  A finite \<^verbatim>\<open>float64\<close> is modelled by the rational number it denotes. An
  arithmetic operation returns the exact result rounded to the nearest number with
  a 53-bit significand, ties to the even significand (IEEE 754 binary64,
  round-to-nearest-even). The exponent range is not modelled: the values that occur
  here have magnitude between \<open>2\<^sup>-\<^sup>4\<close> and \<open>2\<^sup>1\<^sup>5\<close> (or are zero), far inside the
  normal range of binary64.
\<close>

type_synonym float64 = rat

definition round_half_even :: "rat \<Rightarrow> int" where
  "round_half_even y =
     (let f = \<lfloor>y\<rfloor>; r = y - of_int f
      in if r < 1 / 2 then f
         else if 1 / 2 < r then f + 1
         else if even f then f else f + 1)"

text \<open>The binary exponent \<open>e\<close> of a positive number: \<open>2\<^sup>e \<le> x < 2\<^sup>e\<^sup>+\<^sup>1\<close>.\<close>

definition float64_exponent :: "rat \<Rightarrow> int" where
  "float64_exponent x =
     (if 1 \<le> x then bitlen \<lfloor>x\<rfloor> - 1 else - bitlen (\<lceil>1 / x\<rceil> - 1))"

definition float64_round :: "rat \<Rightarrow> float64" where
  "float64_round x =
     (if x = 0 then 0
      else let e = float64_exponent \<bar>x\<bar>;
               m = round_half_even (\<bar>x\<bar> * 2 powi (52 - e))
           in sgn x * of_int m * 2 powi (e - 52))"

text \<open>\<^verbatim>\<open>float64(t)\<close> for an \<^verbatim>\<open>int16\<close>: exact.\<close>

definition float64_of_int16 :: "int16 \<Rightarrow> float64" where
  "float64_of_int16 t = of_int (sint t)"

text \<open>\<^verbatim>\<open>a / b\<close> and \<^verbatim>\<open>a * b\<close> on \<^verbatim>\<open>float64\<close>, for a divisor other than zero.\<close>

definition float64_div :: "float64 \<Rightarrow> float64 \<Rightarrow> float64" where
  "float64_div a b = float64_round (a / b)"

definition float64_mul :: "float64 \<Rightarrow> float64 \<Rightarrow> float64" where
  "float64_mul a b = float64_round (a * b)"

subsection \<open>Readings and the two decoders\<close>

record Readings =
  FirmwareVersion :: string
  BatteryLevel :: uint8
  Temperature :: float64
  Moisture :: byte
  Light :: uint16
  Conductivity :: uint16

text \<open>\<^verbatim>\<open>&Readings{}\<close>: every field at its zero value.\<close>

definition Readings_zero :: Readings where
  "Readings_zero =
     \<lparr>FirmwareVersion = [], BatteryLevel = 0, Temperature = 0, Moisture = 0,
      Light = 0, Conductivity = 0\<rparr>"

text \<open>
  \<^verbatim>\<open>decodeFirmwareData\<close>. The error of \<^verbatim>\<open>binary.Read\<close> is dropped by the source;
  \<^verbatim>\<open>batt\<close> starts at zero.
\<close>

definition decodeFirmwareData :: "byte list \<Rightarrow> Readings \<Rightarrow> Readings" where
  "decodeFirmwareData data rd =
     (let buf = data;
          (err, batt, buf) = binary_Read_uint8 buf 0;
          rd = rd\<lparr>BatteryLevel := batt\<rparr>;
          buf = Buffer_Next 1 buf
      in rd\<lparr>FirmwareVersion := Buffer_String buf\<rparr>)"

text \<open>
  \<^verbatim>\<open>decodeSensorData\<close>. The locals \<^verbatim>\<open>t\<close>, \<^verbatim>\<open>m\<close>, \<^verbatim>\<open>l\<close>, \<^verbatim>\<open>c\<close> start at zero and
  the errors of the four \<^verbatim>\<open>binary.Read\<close> calls are dropped.
\<close>

definition decodeSensorData :: "byte list \<Rightarrow> Readings \<Rightarrow> Readings" where
  "decodeSensorData data rd =
     (let p = data;
          (err, t, p) = binary_Read_int16 p 0;
          rd = rd\<lparr>Temperature := float64_div (float64_of_int16 t) 10\<rparr>;
          p = Buffer_Next 1 p;
          (err, l, p) = binary_Read_uint16 p 0;
          rd = rd\<lparr>Light := l\<rparr>;
          p = Buffer_Next 2 p;
          (err, m, p) = binary_Read_uint8 p 0;
          rd = rd\<lparr>Moisture := m\<rparr>;
          (err, c, p) = binary_Read_uint16 p 0
      in rd\<lparr>Conductivity := c\<rparr>)"

text \<open>
  Modelled from the spec: the repository has no encoder. This is the re-encoding of the
  testable property "decode\<rightarrow>re-encode of the numeric fields is lossless for integers
  and exact to one decimal place for temperature": light, moisture and conductivity
  verbatim, the temperature multiplied by 10 (in \<^verbatim>\<open>float64\<close>) and taken to the
  nearest integer as a signed 16-bit value, little-endian, reserved bytes zero.
\<close>

definition LittleEndian_PutUint16 :: "uint16 \<Rightarrow> byte list" where
  "LittleEndian_PutUint16 v = [ucast v, ucast (drop_bit 8 v)]"

definition encodeSensorData :: "Readings \<Rightarrow> byte list" where
  "encodeSensorData rd =
     (let t = (word_of_int (round (float64_mul (Temperature rd) 10)) :: int16)
      in LittleEndian_PutUint16 t @ [0]
         @ LittleEndian_PutUint16 (Light rd) @ [0, 0]
         @ [Moisture rd]
         @ LittleEndian_PutUint16 (Conductivity rd))"

subsection \<open>The Bluetooth transport and what a session does to it\<close>

text \<open>
  The \<^verbatim>\<open>gatt\<close> library is outside the repository. A peripheral is modelled by its
  identity and by what its operations answer during one session: a Go result
  \<^verbatim>\<open>(value, err)\<close> is \<open>Inl err\<close> or \<open>Inr value\<close>, and a lone \<^verbatim>\<open>error\<close> result is
  an \<open>error option\<close>. A UUID is written as its hexadecimal text.
\<close>

record Service =
  UUID :: string

record Characteristic =
  VHandle :: uint16

record Peripheral =
  ID :: string
  Name :: string
  DiscoverServices :: "error + Service list"
  DiscoverCharacteristics :: "Service \<Rightarrow> error + Characteristic list"
  ReadCharacteristic :: "Characteristic \<Rightarrow> error + byte list"
  WriteCharacteristic :: "Characteristic \<Rightarrow> byte list \<Rightarrow> bool \<Rightarrow> error option"
  ReadLongCharacteristic :: "Characteristic \<Rightarrow> error + byte list"

definition fldDevice :: string where "fldDevice = ''device''"
definition fldAlias :: string where "fldAlias = ''alias''"
definition vHandleRealtimeData :: uint16 where "vHandleRealtimeData = 0x33"
definition vHandleFirmwareAndBattery :: uint16 where "vHandleFirmwareAndBattery = 0x38"
definition vHandleSensorReadings :: uint16 where "vHandleSensorReadings = 0x35"

definition floraDeviceNames :: "string \<rightharpoonup> int" where
  "floraDeviceNames = [''Flower care'' \<mapsto> 1, ''Flower mate'' \<mapsto> 1]"

definition floraServiceUUID :: string where
  "floraServiceUUID = ''0000120400001000800000805f9b34fb''"

text \<open>
  The effects of a session, in the order in which they happen: the calls on the
  peripheral and the lines written to the device's logger (level, format string,
  arguments; \<^verbatim>\<open>WithError(err)\<close> is the argument \<open>E err\<close>).
\<close>

datatype loglevel = Debug | Info | Error

datatype logarg =
    S string
  | U8 uint8
  | U16 uint16
  | E error
  | R "Readings option"

datatype event =
    OpDiscoverServices
  | OpDiscoverCharacteristics Service
  | OpReadCharacteristic Characteristic
  | OpWriteCharacteristic Characteristic "byte list" bool
  | OpReadLongCharacteristic Characteristic
  | OpCancelConnection
  | Log loglevel string "logarg list"

subsection \<open>Config, Device and Discover\<close>

record Config =
  Alias :: string
  Ignore :: bool

type_synonym ConfigMap = "string \<rightharpoonup> Config"

record Device =
  peripheral :: Peripheral
  Logger :: "(string \<times> string) list"
  Alias :: string

text \<open>
  The handler that \<^verbatim>\<open>Discover\<close> registers with \<^verbatim>\<open>gatt.PeripheralDiscovered\<close>, as a
  step on the slice \<^verbatim>\<open>out\<close>. A logger is the list of its fields; the lines it
  writes are left out here.
\<close>

definition PeripheralDiscovered ::
  "ConfigMap \<Rightarrow> (string \<times> string) list \<Rightarrow> Device list \<Rightarrow> Peripheral \<Rightarrow> Device list" where
  "PeripheralDiscovered confMap logger out p =
     (case floraDeviceNames (Name p) of
        None \<Rightarrow> out
      | Some _ \<Rightarrow>
          (let dev = \<lparr>peripheral = p, Logger = logger @ [(fldDevice, ID p)], Alias = []\<rparr>
           in case confMap (ID p) of
                None \<Rightarrow> out @ [dev]
              | Some conf \<Rightarrow>
                  if Ignore conf then out
                  else if Config.Alias conf \<noteq> []
                    then out @ [dev\<lparr>Logger := Logger dev @ [(fldAlias, Config.Alias conf)],
                                     Alias := Config.Alias conf\<rparr>]
                    else out @ [dev]))"

text \<open>
  \<^verbatim>\<open>Discover\<close>. The transport is a parameter: \<open>newDevice\<close> is the error of
  \<^verbatim>\<open>gatt.NewDevice\<close>, if any, and \<open>scan timeout\<close> lists the peripherals whose
  advertisements the library reports, in order, before the scan is stopped after
  \<open>timeout\<close> (a \<^verbatim>\<open>time.Duration\<close>, in nanoseconds).
\<close>

definition Discover ::
  "int \<Rightarrow> ConfigMap \<Rightarrow> (string \<times> string) list \<Rightarrow> error option \<Rightarrow> (int \<Rightarrow> Peripheral list)
     \<Rightarrow> error + Device list" where
  "Discover timeout confMap logger newDevice scan =
     (case newDevice of
        Some err \<Rightarrow> Inl (Wrap err ''Failed to create a new GATT device'')
      | None \<Rightarrow> Inr (foldl (PeripheralDiscovered confMap logger) [] (scan timeout)))"

subsection \<open>FetchReadings\<close>

text \<open>The three characteristics that the session looks for; \<open>None\<close> is \<^verbatim>\<open>nil\<close>.\<close>

record handles =
  cFirmware :: "Characteristic option"
  cReadings :: "Characteristic option"
  cRealtimeData :: "Characteristic option"

text \<open>The inner loop over the characteristics of one service, with its \<^verbatim>\<open>switch\<close>.\<close>

fun selectCharacteristics :: "Characteristic list \<Rightarrow> handles \<Rightarrow> handles \<times> event list" where
  "selectCharacteristics [] h = (h, [])"
| "selectCharacteristics (c # cs) h =
     (let (h1, tr1) =
        (if VHandle c = vHandleRealtimeData then
           (h\<lparr>cRealtimeData := Some c\<rparr>,
            [Log Debug ''Found realtime data switch characteristic (0x%x)'' [U16 (VHandle c)]])
         else if VHandle c = vHandleSensorReadings then
           (h\<lparr>cReadings := Some c\<rparr>,
            [Log Debug ''Found sensor reading characteristic (0x%x)'' [U16 (VHandle c)]])
         else if VHandle c = vHandleFirmwareAndBattery then
           (h\<lparr>cFirmware := Some c\<rparr>,
            [Log Debug ''Found firmware and battery data characteristic (0x%x)'' [U16 (VHandle c)]])
         else (h, []));
          (h2, tr2) = selectCharacteristics cs h1
      in (h2, tr1 @ tr2))"

text \<open>
  The outer loop over the services. A failed \<^verbatim>\<open>DiscoverCharacteristics\<close> ends the
  handler with \<^verbatim>\<open>errOut = err\<close>.
\<close>

fun scanServices :: "Peripheral \<Rightarrow> Service list \<Rightarrow> handles \<Rightarrow> (error + handles) \<times> event list" where
  "scanServices p [] h = (Inr h, [])"
| "scanServices p (service # services) h =
     (if UUID service = floraServiceUUID then
        (case DiscoverCharacteristics p service of
           Inl err \<Rightarrow>
             (Inl err,
              [Log Debug ''Found sensor data service on device (%s)'' [S floraServiceUUID],
               OpDiscoverCharacteristics service,
               Log Error ''Characteristics disvovery failed on device'' [E err]])
         | Inr characteristics \<Rightarrow>
             (let (h1, tr1) = selectCharacteristics characteristics h;
                  (r, tr2) = scanServices p services h1
              in (r,
                  [Log Debug ''Found sensor data service on device (%s)'' [S floraServiceUUID],
                   OpDiscoverCharacteristics service] @ tr1 @ tr2)))
      else scanServices p services h)"

text \<open>
  What a call of \<^verbatim>\<open>FetchReadings\<close> comes to: its two results \<^verbatim>\<open>out\<close> (\<open>None\<close> is
  \<^verbatim>\<open>nil\<close>) and \<^verbatim>\<open>errOut\<close>, and its effects in order.
\<close>

record session =
  out :: "Readings option"
  errOut :: "error option"
  effects :: "event list"

text \<open>
  The rest of the connected handler, split where the source has its blank lines;
  each part gives the results and the effects from there on.
  Lines 233 to 246: the sensor read.
\<close>

definition readSensor :: "Peripheral \<Rightarrow> handles \<Rightarrow> Readings \<Rightarrow> session" where
  "readSensor p h rd =
     (case cReadings h of
        None \<Rightarrow>
          \<lparr>out = None,
           errOut = Some (Errorf ''No readings characteristic discovered on device''),
           effects =
             [Log Error ''No readings characteristic discovered. Unable to read sensor data.'' []]\<rparr>
      | Some c \<Rightarrow>
          (case ReadLongCharacteristic p c of
             Inl err \<Rightarrow>
               \<lparr>out = None, errOut = Some err,
                effects =
                  [OpReadLongCharacteristic c, Log Error ''Failed reading sensor data'' [E err]]\<rparr>
           | Inr data \<Rightarrow>
               \<lparr>out = Some (decodeSensorData data rd), errOut = None,
                effects = [OpReadLongCharacteristic c]\<rparr>))"

text \<open>Lines 218 to 231: the realtime switch for firmware later than 2.6.6.\<close>

definition enableRealtime :: "Peripheral \<Rightarrow> handles \<Rightarrow> Readings \<Rightarrow> session" where
  "enableRealtime p h rd =
     (if ''2.6.6'' < FirmwareVersion rd then
        (case cRealtimeData h of
           None \<Rightarrow>
             \<lparr>out = None,
              errOut = Some (Errorf ''Realtime data switch characteristic not found''),
              effects =
                [Log Error ''No realtime data switch characteristic dicovered. Sensor will not return proper data - aborting.'' []]\<rparr>
         | Some c \<Rightarrow>
             (case WriteCharacteristic p c [0xa0, 0xaf] False of
                Some err \<Rightarrow>
                  \<lparr>out = None, errOut = Some err,
                   effects =
                     [OpWriteCharacteristic c [0xa0, 0xaf] False,
                      Log Error ''Failed to enable realtime data reading'' [E err]]\<rparr>
              | None \<Rightarrow>
                  (let r = readSensor p h rd
                   in r\<lparr>effects :=
                          [OpWriteCharacteristic c [0xa0, 0xaf] False,
                           Log Debug ''Realtime data reading enabled on device'' []]
                          @ effects r\<rparr>)))
      else readSensor p h rd)"

text \<open>Lines 202 to 216: the firmware and battery read.\<close>

definition readFirmware :: "Peripheral \<Rightarrow> handles \<Rightarrow> session" where
  "readFirmware p h =
     (case cFirmware h of
        None \<Rightarrow>
          \<lparr>out = None,
           errOut = Some (Errorf ''No firmware and battery characteristic found on device''),
           effects = [Log Error ''No firmware characteristic found. Aborting query.'' []]\<rparr>
      | Some c \<Rightarrow>
          (case ReadCharacteristic p c of
             Inl err \<Rightarrow>
               \<lparr>out = None, errOut = Some err,
                effects =
                  [OpReadCharacteristic c, Log Error ''Failed reading firmware data'' [E err]]\<rparr>
           | Inr data \<Rightarrow>
               (let rd = decodeFirmwareData data Readings_zero;
                    r = enableRealtime p h rd
                in r\<lparr>effects :=
                       [OpReadCharacteristic c,
                        Log Debug ''Firmware version: %s - Battery at %d%%''
                          [S (FirmwareVersion rd), U8 (BatteryLevel rd)]]
                       @ effects r\<rparr>)))"

text \<open>
  Lines 167 to 201: the connected handler up to the end of the two loops. A failed
  \<^verbatim>\<open>DiscoverServices\<close> returns without setting \<^verbatim>\<open>errOut\<close>.
\<close>

definition PeripheralConnected :: "Peripheral \<Rightarrow> session" where
  "PeripheralConnected p =
     (case DiscoverServices p of
        Inl err \<Rightarrow>
          \<lparr>out = None, errOut = None,
           effects =
             [Log Debug ''Connection to device established'' [], OpDiscoverServices,
              Log Error ''Service disvovery failed on device'' [E err]]\<rparr>
      | Inr services \<Rightarrow>
          (case scanServices p services
                  \<lparr>cFirmware = None, cReadings = None, cRealtimeData = None\<rparr> of
             (Inl err, tr) \<Rightarrow>
               \<lparr>out = None, errOut = Some err,
                effects =
                  [Log Debug ''Connection to device established'' [], OpDiscoverServices] @ tr\<rparr>
           | (Inr h, tr) \<Rightarrow>
               (let r = readFirmware p h
                in r\<lparr>effects :=
                       [Log Debug ''Connection to device established'' [], OpDiscoverServices]
                       @ tr @ effects r\<rparr>)))"

text \<open>
  \<^verbatim>\<open>FetchReadings\<close>, for a session in which the peripheral connects: the connected
  handler runs, its deferred \<^verbatim>\<open>CancelConnection\<close> follows on every path, and the
  disconnected handler releases the caller, which returns \<^verbatim>\<open>out\<close> and \<^verbatim>\<open>errOut\<close>.
  (A peripheral that never connects leaves the caller waiting on \<^verbatim>\<open>done\<close>; such a
  session returns nothing and is not modelled.)
\<close>

definition FetchReadings :: "Device \<Rightarrow> session" where
  "FetchReadings dev =
     (let r = PeripheralConnected (peripheral dev)
      in r\<lparr>effects :=
             [Log Info ''Fetching readings from device'' []] @ effects r
             @ [OpCancelConnection, Log Debug ''Disconnected from device'' []]\<rparr>)"

text \<open>
  The writes to a characteristic and the sensor reads among the effects of a session,
  in order.
\<close>

fun isWrite :: "event \<Rightarrow> bool" where
  "isWrite (OpWriteCharacteristic c bs r) = True"
| "isWrite e = False"

fun isSensorRead :: "event \<Rightarrow> bool" where
  "isSensorRead (OpReadLongCharacteristic c) = True"
| "isSensorRead e = False"

definition writesAndSensorReads :: "event list \<Rightarrow> event list" where
  "writesAndSensorReads tr = filter (\<lambda>e. isWrite e \<or> isSensorRead e) tr"

subsection \<open>One poll tick of discoverAndRun\<close>

text \<open>
  The effects of the loop \<^verbatim>\<open>for _, device := range devices\<close> in \<^verbatim>\<open>main.go\<close>: a
  call of \<^verbatim>\<open>FetchReadings\<close> with the effects of its session, a line on the device's
  logger, and a write to the InfluxDB client (tags and the readings as fields). The
  loop of this revision has no statement that writes to the client: the block that
  did is commented out.
\<close>

datatype tick_event =
    CallFetchReadings Device "event list"
  | DeviceLog Device loglevel string "logarg list"
  | InfluxWrite "(string \<times> string) list" Readings

fun pollTick :: "Device list \<Rightarrow> tick_event list" where
  "pollTick [] = []"
| "pollTick (device # devices) =
     (let r = FetchReadings device
      in case errOut r of
           Some err \<Rightarrow>
             [CallFetchReadings device (effects r),
              DeviceLog device Error ''Failed to fetch readings from device'' [E err]]
             @ pollTick devices
         | None \<Rightarrow>
             [CallFetchReadings device (effects r),
              DeviceLog device Info ''Received readings: %s'' [R (out r)]]
             @ pollTick devices)"

text \<open>The devices on which a tick calls \<^verbatim>\<open>FetchReadings\<close>, in order, and its sink writes.\<close>

fun fetchCalls :: "tick_event list \<Rightarrow> Device list" where
  "fetchCalls [] = []"
| "fetchCalls (CallFetchReadings d tr # es) = d # fetchCalls es"
| "fetchCalls (e # es) = fetchCalls es"

fun influxWrites :: "tick_event list \<Rightarrow> tick_event list" where
  "influxWrites [] = []"
| "influxWrites (InfluxWrite tags rd # es) = InfluxWrite tags rd # influxWrites es"
| "influxWrites (e # es) = influxWrites es"

subsection \<open>Peripherals used as concrete inputs\<close>

text \<open>
  A peripheral named "Flower care" with one sensor data service whose characteristics
  have the given handles, which answers the firmware read and the sensor read with
  the given payloads and accepts every write.
\<close>

definition floraPeripheral :: "string \<Rightarrow> uint16 list \<Rightarrow> byte list \<Rightarrow> byte list \<Rightarrow> Peripheral" where
  "floraPeripheral mac vhandles firmware sensor =
     \<lparr>ID = mac, Name = ''Flower care'',
      DiscoverServices = Inr [\<lparr>UUID = floraServiceUUID\<rparr>],
      DiscoverCharacteristics = (\<lambda>s. Inr (map (\<lambda>v. \<lparr>VHandle = v\<rparr>) vhandles)),
      ReadCharacteristic = (\<lambda>c. Inr firmware),
      WriteCharacteristic = (\<lambda>c bs r. None),
      ReadLongCharacteristic = (\<lambda>c. Inr sensor)\<rparr>"

text \<open>A peripheral whose characteristic discovery fails with a transport error.\<close>

definition brokenPeripheral :: "string \<Rightarrow> Peripheral" where
  "brokenPeripheral mac =
     \<lparr>ID = mac, Name = ''Flower care'',
      DiscoverServices = Inr [\<lparr>UUID = floraServiceUUID\<rparr>],
      DiscoverCharacteristics = (\<lambda>s. Inl (TransportError 1)),
      ReadCharacteristic = (\<lambda>c. Inl (TransportError 2)),
      WriteCharacteristic = (\<lambda>c bs r. Some (TransportError 3)),
      ReadLongCharacteristic = (\<lambda>c. Inl (TransportError 4))\<rparr>"

definition deviceOf :: "Peripheral \<Rightarrow> Device" where
  "deviceOf p = \<lparr>peripheral = p, Logger = [(fldDevice, ID p)], Alias = []\<rparr>"

text \<open>Payloads: firmware 2.6.6 at battery 64, firmware 3.1.8 at battery 100, a sensor record.\<close>

definition firmware_2_6_6 :: "byte list" where
  "firmware_2_6_6 = [64, 0, 0x32, 0x2E, 0x36, 0x2E, 0x36]"

definition firmware_3_1_8 :: "byte list" where
  "firmware_3_1_8 = [100, 0x27, 0x33, 0x2E, 0x31, 0x2E, 0x38]"

definition sensorPayload :: "byte list" where
  "sensorPayload = [0xCE, 0x00, 0x00, 0x90, 0x01, 0x00, 0x00, 0x28, 0xE8, 0x00]"

section \<open>Properties\<close>

subsection \<open>Little-endian words\<close>

lemma LittleEndian_Uint16_add:
  "LittleEndian_Uint16 b0 b1 = ucast b0 + push_bit 8 (ucast b1)"
  unfolding LittleEndian_Uint16_def
  by (rule disjunctive_add [symmetric]) (auto simp: bit_simps dest: bit_imp_le_length)

lemma unat_ucast_byte: "unat (ucast (b::byte) :: uint16) = unat b"
  by (simp add: unsigned_ucast_eq take_bit_nat_eq_self_iff less_trans [OF unsigned_less [of b]])

lemma unat_push_bit_byte: "unat (push_bit 8 (ucast (b::byte)) :: uint16) = 256 * unat b"
proof -
  have "unat b < 256" using unsigned_less [of b] by simp
  then show ?thesis
    by (simp add: push_bit_eq_mult unat_word_ariths unat_ucast_byte)
qed

lemma unat_LittleEndian_Uint16:
  "unat (LittleEndian_Uint16 b0 b1) = unat b0 + 256 * unat b1"
proof -
  have "unat b0 < 256" "unat b1 < 256"
    using unsigned_less [of b0] unsigned_less [of b1] by simp_all
  then have "unat (ucast b0 :: uint16) + unat (push_bit 8 (ucast b1) :: uint16) < 2 ^ LENGTH(16)"
    by (simp add: unat_ucast_byte unat_push_bit_byte)
  then have "unat (ucast b0 + push_bit 8 (ucast b1) :: uint16)
      = unat (ucast b0 :: uint16) + unat (push_bit 8 (ucast b1) :: uint16)"
    by (rule unat_add_lem [THEN iffD1])
  then show ?thesis
    unfolding LittleEndian_Uint16_add by (simp add: unat_ucast_byte unat_push_bit_byte)
qed

lemma low_byte_LittleEndian_Uint16: "ucast (LittleEndian_Uint16 b0 b1) = b0"
  unfolding LittleEndian_Uint16_def
  by (rule bit_word_eqI) (auto simp: bit_simps)

lemma high_byte_LittleEndian_Uint16: "ucast (drop_bit 8 (LittleEndian_Uint16 b0 b1)) = b1"
  unfolding LittleEndian_Uint16_def
  by (rule bit_word_eqI) (auto simp: bit_simps dest: bit_imp_le_length)

subsection \<open>Reading from a buffer\<close>

lemma binary_Read_uint8_snd:
  "snd (binary_Read_uint8 buf v) = (if 1 \<le> length buf then buf ! 0 else v, drop 1 buf)"
  by (cases buf) auto

lemma binary_Read_uint16_snd:
  "snd (binary_Read_uint16 buf v)
     = (if 2 \<le> length buf then LittleEndian_Uint16 (buf ! 0) (buf ! 1) else v, drop 2 buf)"
  by (cases "(buf, v)" rule: binary_Read_uint16.cases) auto

lemma binary_Read_int16_snd:
  "snd (binary_Read_int16 buf v)
     = (if 2 \<le> length buf then LittleEndian_Uint16 (buf ! 0) (buf ! 1) else v, drop 2 buf)"
  by (cases "(buf, v)" rule: binary_Read_int16.cases) auto

lemma uint_LittleEndian_Uint16:
  "uint (LittleEndian_Uint16 b0 b1) = uint b0 + 256 * uint b1"
  unfolding uint_nat unat_LittleEndian_Uint16 by simp

lemma sint_int16:
  "sint (w::int16) = (if uint w < 32768 then uint w else uint w - 65536)"
proof -
  have hi: "uint w < 65536" using uint_bounded [of w] by simp
  have lo: "0 \<le> uint w" by simp
  have s: "sint w = (uint w + 32768) mod 65536 - 32768"
    unfolding sint_uint by (simp add: signed_take_bit_eq_take_bit_shift take_bit_eq_mod)
  show ?thesis
  proof (cases "uint w < 32768")
    case True
    then have "(uint w + 32768) mod 65536 = uint w + 32768"
      using lo by simp
    then show ?thesis using True s by simp
  next
    case False
    have "uint w + 32768 = (uint w - 32768) + 1 * 65536"
      by arith
    then have "(uint w + 32768) mod 65536 = ((uint w - 32768) + 1 * 65536) mod 65536"
      by (rule arg_cong)
    also have "\<dots> = (uint w - 32768) mod 65536"
      by (simp only: mod_mult_self1)
    also have "\<dots> = uint w - 32768"
      using False hi by simp
    finally show ?thesis using False s by simp
  qed
qed

lemma float64_of_int16_LittleEndian:
  "float64_of_int16 (LittleEndian_Uint16 b0 b1)
     = of_int (let u = uint b0 + 256 * uint b1 in if u < 32768 then u else u - 65536)"
  unfolding float64_of_int16_def Let_def
  by (simp only: sint_int16 uint_LittleEndian_Uint16)

lemma word_of_int_sint_int16: "word_of_int (sint (t::int16)) = t"
proof -
  have "(scast t :: int16) = word_of_int (sint t)" by (rule scast_eq)
  then show ?thesis by (simp add: scast_id)
qed

subsection \<open>Rounding to float64\<close>

lemma round_half_even_error: "\<bar>of_int (round_half_even y) - y\<bar> \<le> 1 / 2"
proof -
  define f where "f = \<lfloor>y\<rfloor>"
  have b: "of_int f \<le> y" "y < of_int f + 1" unfolding f_def by linarith+
  have r: "round_half_even y =
     (if y - of_int f < 1 / 2 then f else if 1 / 2 < y - of_int f then f + 1
      else if even f then f else f + 1)"
    by (simp add: round_half_even_def Let_def f_def)
  show ?thesis unfolding r using b by (simp add: abs_if)
qed

lemma float64_exponent_lower:
  assumes "0 < (x::rat)"
  shows "2 powi (float64_exponent x) \<le> x"
proof (cases "1 \<le> x")
  case True
  then have pos: "0 < \<lfloor>x\<rfloor>" by linarith
  then have b1: "1 \<le> bitlen \<lfloor>x\<rfloor>" by (simp add: bitlen_alt_def)
  have "(2::int) ^ nat (bitlen \<lfloor>x\<rfloor> - 1) \<le> \<lfloor>x\<rfloor>"
    using bitlen_bounds [OF pos] by simp
  then have "of_int ((2::int) ^ nat (bitlen \<lfloor>x\<rfloor> - 1)) \<le> (of_int \<lfloor>x\<rfloor> :: rat)"
    by (simp only: of_int_le_iff)
  also have "\<dots> \<le> x" by linarith
  finally show ?thesis using b1 True by (simp add: power_int_def float64_exponent_def)
next
  case False
  define n where "n = \<lceil>1 / x\<rceil> - 1"
  define k where "k = bitlen n"
  have x1: "x < 1" using False by simp
  then have "1 < 1 / x" using assms by simp
  then have npos: "0 < n" unfolding n_def by linarith
  have "n < 2 ^ nat k" unfolding k_def using bitlen_bounds [OF npos] by simp
  then have "n + 1 \<le> 2 ^ nat k" by simp
  then have le: "(of_int (n + 1) :: rat) \<le> of_int (2 ^ nat k)" by (simp only: of_int_le_iff)
  have "1 / x \<le> of_int (n + 1)" unfolding n_def by simp
  also note le
  finally have "1 / x \<le> 2 ^ nat k" by simp
  then have "1 \<le> 2 ^ nat k * x" using assms by (simp add: field_simps)
  then have "inverse (2 ^ nat k) \<le> x"
    by (simp add: field_simps)
  moreover have "0 \<le> k" unfolding k_def by (rule bitlen_nonneg)
  then have "(2::rat) powi (- k) = inverse (2 ^ nat k)"
    by (simp add: power_int_minus power_int_def power_one_over inverse_eq_divide)
  ultimately show ?thesis using False
    by (simp add: float64_exponent_def n_def [symmetric] k_def [symmetric])
qed

lemma float64_exponent_upper:
  assumes "0 < (x::rat)"
  shows "x < 2 powi (float64_exponent x + 1)"
proof (cases "1 \<le> x")
  case True
  then have pos: "0 < \<lfloor>x\<rfloor>" by linarith
  have "\<lfloor>x\<rfloor> < (2::int) ^ nat (bitlen \<lfloor>x\<rfloor>)"
    using bitlen_bounds [OF pos] by simp
  then have "\<lfloor>x\<rfloor> + 1 \<le> (2::int) ^ nat (bitlen \<lfloor>x\<rfloor>)" by simp
  then have "(of_int (\<lfloor>x\<rfloor> + 1) :: rat) \<le> of_int ((2::int) ^ nat (bitlen \<lfloor>x\<rfloor>))"
    by (simp only: of_int_le_iff)
  moreover have "x < of_int (\<lfloor>x\<rfloor> + 1)" by linarith
  ultimately show ?thesis using bitlen_nonneg [of "\<lfloor>x\<rfloor>"] True
    by (simp add: power_int_def float64_exponent_def)
next
  case False
  define n where "n = \<lceil>1 / x\<rceil> - 1"
  define k where "k = bitlen n"
  have x1: "x < 1" using False by simp
  then have "1 < 1 / x" using assms by simp
  then have npos: "0 < n" unfolding n_def by linarith
  then have k1: "1 \<le> k" unfolding k_def by (simp add: bitlen_alt_def)
  have "2 ^ nat (k - 1) \<le> n" unfolding k_def using bitlen_bounds [OF npos] by simp
  then have "(of_int (2 ^ nat (k - 1)) :: rat) \<le> of_int n" by (simp only: of_int_le_iff)
  also have "of_int n < 1 / x" unfolding n_def by linarith
  finally have "2 ^ nat (k - 1) < 1 / x" by simp
  then have "2 ^ nat (k - 1) * x < 1" using assms by (simp add: field_simps)
  then have "x < inverse (2 ^ nat (k - 1))"
    by (simp add: field_simps)
  moreover have "(2::rat) powi (- k + 1) = inverse (2 ^ nat (k - 1))"
    using k1 power_int_minus [of "2::rat" "k - 1"] by (simp add: power_int_def)
  ultimately show ?thesis using False
    by (simp add: float64_exponent_def n_def [symmetric] k_def [symmetric])
qed

text \<open>
  The rounded value has a significand of 53 bits, and its distance from the exact
  value is at most half a unit of the last place, hence at most \<open>2\<^sup>-\<^sup>5\<^sup>3\<close> of the
  exact value's magnitude.
\<close>

lemma float64_round_significand:
  assumes "x \<noteq> 0"
  shows "2 ^ 52 \<le> round_half_even (\<bar>x\<bar> * 2 powi (52 - float64_exponent \<bar>x\<bar>))
       \<and> round_half_even (\<bar>x\<bar> * 2 powi (52 - float64_exponent \<bar>x\<bar>)) \<le> 2 ^ 53"
proof -
  define e where "e = float64_exponent \<bar>x\<bar>"
  define y where "y = \<bar>x\<bar> * 2 powi (52 - e)"
  define m where "m = round_half_even y"
  have pos: "0 < \<bar>x\<bar>" using assms by simp
  have p: "(0::rat) < 2 powi (52 - e)" by simp
  have "2 powi e * 2 powi (52 - e) \<le> y"
    unfolding y_def using float64_exponent_lower [OF pos] p
    by (simp add: e_def [symmetric])
  then have lo: "2 ^ 52 \<le> y"
    using power_int_add [of "2::rat" e "52 - e"] by simp
  have "y < 2 powi (e + 1) * 2 powi (52 - e)"
    unfolding y_def using float64_exponent_upper [OF pos] p
    by (simp add: e_def [symmetric])
  then have hi: "y < 2 ^ 53"
    using power_int_add [of "2::rat" "e + 1" "52 - e"] by simp
  have err: "\<bar>of_int m - y\<bar> \<le> 1 / 2" unfolding m_def by (rule round_half_even_error)
  from lo err have "(of_int (2 ^ 52 - 1) :: rat) < of_int m" by (simp add: abs_if split: if_splits)
  then have "2 ^ 52 - 1 < m" by (simp only: of_int_less_iff)
  moreover from hi err have "(of_int m :: rat) < of_int (2 ^ 53 + 1)" by (simp add: abs_if split: if_splits)
  then have "m < 2 ^ 53 + 1" by (simp only: of_int_less_iff)
  ultimately show ?thesis unfolding m_def y_def e_def by simp
qed

lemma float64_round_error: "\<bar>float64_round x - x\<bar> \<le> \<bar>x\<bar> / 2 ^ 53"
proof (cases "x = 0")
  case True
  then show ?thesis by (simp add: float64_round_def)
next
  case False
  define e where "e = float64_exponent \<bar>x\<bar>"
  define y where "y = \<bar>x\<bar> * 2 powi (52 - e)"
  define m where "m = round_half_even y"
  have fr: "float64_round x = sgn x * of_int m * 2 powi (e - 52)"
    using False by (simp add: float64_round_def Let_def e_def y_def m_def)
  have p: "(0::rat) < 2 powi (e - 52)" by simp
  have yx: "y * 2 powi (e - 52) = \<bar>x\<bar>"
    unfolding y_def using power_int_add [of "2::rat" "52 - e" "e - 52"] by simp
  have x_eq: "x = sgn x * (y * 2 powi (e - 52))"
    unfolding yx by (simp add: sgn_mult_abs)
  have "float64_round x - x = sgn x * ((of_int m - y) * 2 powi (e - 52))"
    unfolding fr by (subst (2) x_eq) (simp add: algebra_simps)
  then have "\<bar>float64_round x - x\<bar> = \<bar>of_int m - y\<bar> * 2 powi (e - 52)"
    using False by (simp add: abs_mult abs_sgn_eq)
  also have "\<dots> \<le> 1 / 2 * 2 powi (e - 52)"
    using round_half_even_error [of y] p unfolding m_def by (simp only: mult_le_cancel_right_pos)
  also have "\<dots> = 2 powi e / 2 ^ 53"
    using power_int_diff [of "2::rat" e 52] by simp
  also have "\<dots> \<le> \<bar>x\<bar> / 2 ^ 53"
    using float64_exponent_lower [of "\<bar>x\<bar>"] False
    by (simp add: e_def divide_right_mono)
  finally show ?thesis .
qed

lemma temperature_tenths:
  fixes t :: int16
  shows "round (float64_mul (float64_div (float64_of_int16 t) 10) 10) = sint t"
proof -
  define x :: rat where "x = of_int (sint t)"
  define T where "T = float64_round (x / 10)"
  define P where "P = float64_round (T * 10)"
  have "- 32768 \<le> sint t" "sint t \<le> 32768"
    using sint_ge [of t] sint_lt [of t] by simp_all
  then have "of_int (- 32768) \<le> x" "x \<le> of_int 32768"
    unfolding x_def by (simp_all only: of_int_le_iff)
  then have xb: "\<bar>x\<bar> \<le> 32768" by simp
  have e1: "\<bar>T - x / 10\<bar> \<le> \<bar>x / 10\<bar> / 2 ^ 53"
    unfolding T_def by (rule float64_round_error)
  have e2: "\<bar>P - T * 10\<bar> \<le> \<bar>T * 10\<bar> / 2 ^ 53"
    unfolding P_def by (rule float64_round_error)
  have d1: "\<bar>T * 10 - x\<bar> \<le> \<bar>x\<bar> / 2 ^ 53"
  proof -
    have "\<bar>T * 10 - x\<bar> = 10 * \<bar>T - x / 10\<bar>" by (simp add: abs_if)
    also have "\<dots> \<le> 10 * (\<bar>x / 10\<bar> / 2 ^ 53)" using e1 by simp
    also have "\<dots> = \<bar>x\<bar> / 2 ^ 53" by simp
    finally show ?thesis .
  qed
  have "\<bar>x\<bar> / 2 ^ 53 \<le> 32768 / 2 ^ 53" using xb by (simp add: divide_right_mono)
  with d1 have d1': "\<bar>T * 10 - x\<bar> \<le> 1 / 8" by simp
  then have "\<bar>T * 10\<bar> \<le> 32769" using xb by (simp add: abs_if split: if_splits)
  then have "\<bar>T * 10\<bar> / 2 ^ 53 \<le> 32769 / 2 ^ 53" by (simp add: divide_right_mono)
  with e2 have d2: "\<bar>P - T * 10\<bar> \<le> 1 / 8" by simp
  have "\<bar>P - x\<bar> \<le> \<bar>P - T * 10\<bar> + \<bar>T * 10 - x\<bar>" by simp
  with d1' d2 have "\<bar>P - of_int (sint t)\<bar> < 1 / 2" unfolding x_def by simp
  then have "round P = sint t" by (rule round_unique')
  then show ?thesis
    by (simp add: P_def T_def x_def float64_mul_def float64_div_def float64_of_int16_def)
qed

subsection \<open>The decoders\<close>

lemma decodeFirmwareData_fields:
  "decodeFirmwareData data rd =
     rd\<lparr>BatteryLevel := (if data = [] then 0 else data ! 0),
        FirmwareVersion := Buffer_String (drop 2 data)\<rparr>"
  by (cases data) (simp_all add: decodeFirmwareData_def Buffer_Next_def)

lemma decodeSensorData_fields:
  "decodeSensorData data rd =
     rd\<lparr>Temperature := float64_div (float64_of_int16
            (if 2 \<le> length data then LittleEndian_Uint16 (data ! 0) (data ! 1) else 0)) 10,
        Light := (if 5 \<le> length data then LittleEndian_Uint16 (data ! 3) (data ! 4) else 0),
        Moisture := (if 8 \<le> length data then data ! 7 else 0),
        Conductivity := (if 10 \<le> length data then LittleEndian_Uint16 (data ! 8) (data ! 9) else 0)\<rparr>"
proof -
  have le: "2 \<le> length data - 3 \<longleftrightarrow> 5 \<le> length data"
    "Suc 0 \<le> length data - 7 \<longleftrightarrow> 8 \<le> length data"
    "2 \<le> length data - 8 \<longleftrightarrow> 10 \<le> length data" by arith+
  show ?thesis
    unfolding decodeSensorData_def Let_def Buffer_Next_def case_prod_beta
    by (simp add: binary_Read_uint8_snd binary_Read_uint16_snd binary_Read_int16_snd
        le [simplified eval_nat_numeral] eval_nat_numeral)
qed

text \<open>
  C8: for every input of at least 2 bytes, \<^verbatim>\<open>decodeFirmwareData\<close> sets the battery
  level to byte 0 and the firmware version to the bytes from offset 2 onward, read as
  text. The witness is the payload \<open>[64, 0, 0x32, 0x2E, 0x36, 0x2E, 0x36]\<close>, which
  decodes to battery level 64 and firmware version "2.6.6".
\<close>

theorem decodeFirmwareData_layout:
  assumes "2 \<le> length data"
  shows "BatteryLevel (decodeFirmwareData data rd) = data ! 0
       \<and> unat (BatteryLevel (decodeFirmwareData data rd)) = unat (data ! 0)
       \<and> FirmwareVersion (decodeFirmwareData data rd) = map (\<lambda>b. char_of (unat b)) (drop 2 data)"
proof -
  from assms obtain b0 b1 rest where "data = b0 # b1 # rest"
    by (cases data; cases "tl data") auto
  then show ?thesis
    by (simp add: decodeFirmwareData_def Buffer_Next_def Buffer_String_def)
qed

theorem decodeFirmwareData_layout_witness:
  "(2::nat) \<le> length [64, 0, 0x32, 0x2E, 0x36, 0x2E, 0x36 :: byte]
   \<and> unat (BatteryLevel (decodeFirmwareData [64, 0, 0x32, 0x2E, 0x36, 0x2E, 0x36] Readings_zero)) = 64
   \<and> FirmwareVersion (decodeFirmwareData [64, 0, 0x32, 0x2E, 0x36, 0x2E, 0x36] Readings_zero) = ''2.6.6''"
proof -
  have h: "(2::nat) \<le> length [64, 0, 0x32, 0x2E, 0x36, 0x2E, 0x36 :: byte]" by simp
  have c: "map (\<lambda>b. char_of (unat b)) [0x32, 0x2E, 0x36, 0x2E, 0x36 :: byte] = ''2.6.6''"
    by code_simp
  show ?thesis
    using decodeFirmwareData_layout [OF h, of Readings_zero] c by simp
qed

text \<open>
  C10: the two decoders write disjoint fields of the record. \<^verbatim>\<open>decodeSensorData\<close>
  leaves the firmware version and the battery level as they were,
  \<^verbatim>\<open>decodeFirmwareData\<close> leaves temperature, light, moisture and conductivity as
  they were, and the sensor decode after the firmware decode keeps the firmware and
  battery results.
\<close>

theorem decoders_frame:
  "FirmwareVersion (decodeSensorData data rd) = FirmwareVersion rd
   \<and> BatteryLevel (decodeSensorData data rd) = BatteryLevel rd
   \<and> Temperature (decodeFirmwareData data rd) = Temperature rd
   \<and> Light (decodeFirmwareData data rd) = Light rd
   \<and> Moisture (decodeFirmwareData data rd) = Moisture rd
   \<and> Conductivity (decodeFirmwareData data rd) = Conductivity rd
   \<and> FirmwareVersion (decodeSensorData sdata (decodeFirmwareData fdata rd))
       = FirmwareVersion (decodeFirmwareData fdata rd)
   \<and> BatteryLevel (decodeSensorData sdata (decodeFirmwareData fdata rd))
       = BatteryLevel (decodeFirmwareData fdata rd)"
  by (simp add: decodeSensorData_def decodeFirmwareData_def Let_def split: prod.splits)

text \<open>
  C1: for every 10-byte input, \<^verbatim>\<open>decodeSensorData\<close> reads the little-endian record
  \<open>[temp:i16][reserved:1][light:u16][reserved:2][moisture:u8][conductivity:u16]\<close>:
  the temperature is the \<^verbatim>\<open>float64\<close> quotient of the signed 16-bit value of bytes 0
  and 1 by 10 (the \<^verbatim>\<open>float64\<close> nearest to temp/10, within a relative error of
  \<open>2\<^sup>-\<^sup>5\<^sup>3\<close>), light is bytes 3 and 4, moisture is byte 7 and conductivity is
  bytes 8 and 9. The witness is the payload of the spec's example: it decodes to the
  \<^verbatim>\<open>float64\<close> that the literal 20.6 denotes, light 400, moisture 40 and
  conductivity 232.
\<close>

theorem decodeSensorData_layout:
  assumes "length data = 10"
  shows "let temp = (let u = uint (data ! 0) + 256 * uint (data ! 1)
                     in if u < 32768 then u else u - 65536);
             rd' = decodeSensorData data rd
         in Temperature rd' = float64_div (of_int temp) 10
          \<and> \<bar>Temperature rd' - of_int temp / 10\<bar> \<le> \<bar>of_int temp / 10\<bar> / 2 ^ 53
          \<and> uint (Light rd') = uint (data ! 3) + 256 * uint (data ! 4)
          \<and> Moisture rd' = data ! 7
          \<and> uint (Conductivity rd') = uint (data ! 8) + 256 * uint (data ! 9)"
proof -
  define temp where
    "temp = (let u = uint (data ! 0) + 256 * uint (data ! 1) in if u < 32768 then u else u - 65536)"
  have "Temperature (decodeSensorData data rd)
      = float64_div (float64_of_int16 (LittleEndian_Uint16 (data ! 0) (data ! 1))) 10"
    using assms by (simp add: decodeSensorData_fields)
  then have T: "Temperature (decodeSensorData data rd) = float64_div (of_int temp) 10"
    unfolding float64_of_int16_LittleEndian temp_def .
  have E: "\<bar>Temperature (decodeSensorData data rd) - of_int temp / 10\<bar>
      \<le> \<bar>of_int temp / 10\<bar> / 2 ^ 53"
    unfolding T float64_div_def by (rule float64_round_error)
  have L: "uint (Light (decodeSensorData data rd)) = uint (data ! 3) + 256 * uint (data ! 4)"
    using assms by (simp add: decodeSensorData_fields uint_LittleEndian_Uint16)
  have M: "Moisture (decodeSensorData data rd) = data ! 7"
    using assms by (simp add: decodeSensorData_fields)
  have C: "uint (Conductivity (decodeSensorData data rd)) = uint (data ! 8) + 256 * uint (data ! 9)"
    using assms by (simp add: decodeSensorData_fields uint_LittleEndian_Uint16)
  show ?thesis
    unfolding temp_def [symmetric] unfolding Let_def using T E L M C by blast
qed

theorem decodeSensorData_layout_witness:
  "length [0xCE, 0x00, 0x00, 0x90, 0x01, 0x00, 0x00, 0x28, 0xE8, 0x00 :: byte] = 10
   \<and> Temperature (decodeSensorData [0xCE, 0x00, 0x00, 0x90, 0x01, 0x00, 0x00, 0x28, 0xE8, 0x00] Readings_zero)
       = float64_div 206 10
   \<and> float64_div 206 10 = 5798384520239514 / 2 ^ 48
   \<and> float64_div 206 10 = float64_round 20.6
   \<and> \<bar>Temperature (decodeSensorData [0xCE, 0x00, 0x00, 0x90, 0x01, 0x00, 0x00, 0x28, 0xE8, 0x00] Readings_zero) - 20.6\<bar>
       \<le> 20.6 / 2 ^ 53
   \<and> uint (Light (decodeSensorData [0xCE, 0x00, 0x00, 0x90, 0x01, 0x00, 0x00, 0x28, 0xE8, 0x00] Readings_zero)) = 400
   \<and> Moisture (decodeSensorData [0xCE, 0x00, 0x00, 0x90, 0x01, 0x00, 0x00, 0x28, 0xE8, 0x00] Readings_zero) = 40
   \<and> uint (Conductivity (decodeSensorData [0xCE, 0x00, 0x00, 0x90, 0x01, 0x00, 0x00, 0x28, 0xE8, 0x00] Readings_zero)) = 232"
proof -
  have h: "length [0xCE, 0x00, 0x00, 0x90, 0x01, 0x00, 0x00, 0x28, 0xE8, 0x00 :: byte] = 10"
    by simp
  have v: "float64_div 206 10 = 5798384520239514 / 2 ^ 48"
    by code_simp
  have l: "float64_div 206 10 = float64_round 20.6"
    by (simp add: float64_div_def)
  show ?thesis
    using decodeSensorData_layout [OF h, of Readings_zero] v l
    by (simp add: Let_def)
qed

text \<open>
  C9: for every 10-byte sensor payload, re-encoding the decoded numeric fields gives
  back the bytes of the payload at every position that is not reserved: light,
  moisture and conductivity are kept verbatim, and the temperature times 10, taken to
  the nearest integer, is the signed 16-bit value that was decoded.
\<close>

theorem encodeSensorData_decodeSensorData:
  assumes "length data = 10"
  shows "encodeSensorData (decodeSensorData data rd)
    = [data ! 0, data ! 1, 0, data ! 3, data ! 4, 0, 0, data ! 7, data ! 8, data ! 9]"
  using assms
  by (simp add: decodeSensorData_fields encodeSensorData_def LittleEndian_PutUint16_def
      temperature_tenths word_of_int_sint_int16
      low_byte_LittleEndian_Uint16 high_byte_LittleEndian_Uint16)

theorem encodeSensorData_decodeSensorData_witness:
  "length [0xCE, 0x00, 0x5A, 0x90, 0x01, 0x11, 0x22, 0x28, 0xE8, 0x00 :: byte] = 10
   \<and> encodeSensorData
        (decodeSensorData [0xCE, 0x00, 0x5A, 0x90, 0x01, 0x11, 0x22, 0x28, 0xE8, 0x00] Readings_zero)
       = [0xCE, 0x00, 0x00, 0x90, 0x01, 0x00, 0x00, 0x28, 0xE8, 0x00]"
proof -
  have h: "length [0xCE, 0x00, 0x5A, 0x90, 0x01, 0x11, 0x22, 0x28, 0xE8, 0x00 :: byte] = 10"
    by simp
  show ?thesis
    using encodeSensorData_decodeSensorData [OF h, of Readings_zero] by simp
qed

subsection \<open>The effects of a session\<close>

lemmas vHandle_defs = vHandleRealtimeData_def vHandleSensorReadings_def vHandleFirmwareAndBattery_def

lemma selectCharacteristics_Cons:
  "fst (selectCharacteristics (c # cs) h) =
     fst (selectCharacteristics cs
       (if VHandle c = vHandleRealtimeData then h\<lparr>cRealtimeData := Some c\<rparr>
        else if VHandle c = vHandleSensorReadings then h\<lparr>cReadings := Some c\<rparr>
        else if VHandle c = vHandleFirmwareAndBattery then h\<lparr>cFirmware := Some c\<rparr>
        else h))"
  "snd (selectCharacteristics (c # cs) h) =
     (if VHandle c = vHandleRealtimeData then
        [Log Debug ''Found realtime data switch characteristic (0x%x)'' [U16 (VHandle c)]]
      else if VHandle c = vHandleSensorReadings then
        [Log Debug ''Found sensor reading characteristic (0x%x)'' [U16 (VHandle c)]]
      else if VHandle c = vHandleFirmwareAndBattery then
        [Log Debug ''Found firmware and battery data characteristic (0x%x)'' [U16 (VHandle c)]]
      else [])
     @ snd (selectCharacteristics cs
       (if VHandle c = vHandleRealtimeData then h\<lparr>cRealtimeData := Some c\<rparr>
        else if VHandle c = vHandleSensorReadings then h\<lparr>cReadings := Some c\<rparr>
        else if VHandle c = vHandleFirmwareAndBattery then h\<lparr>cFirmware := Some c\<rparr>
        else h))"
  by (simp_all add: Let_def case_prod_beta)

lemma selectCharacteristics_quiet:
  "writesAndSensorReads (snd (selectCharacteristics cs h)) = []"
proof (induction cs arbitrary: h)
  case Nil
  show ?case by (simp add: writesAndSensorReads_def)
next
  case (Cons c cs)
  show ?case
    unfolding selectCharacteristics_Cons using Cons.IH
    by (simp add: writesAndSensorReads_def)
qed

lemma selectCharacteristics_no_firmware_log:
  "Log Debug ''Firmware version: %s - Battery at %d%%'' args \<notin> set (snd (selectCharacteristics cs h))"
proof (induction cs arbitrary: h)
  case Nil
  show ?case by simp
next
  case (Cons c cs)
  show ?case
    unfolding selectCharacteristics_Cons using Cons.IH by simp
qed

lemma selectCharacteristics_realtime:
  "cRealtimeData (fst (selectCharacteristics cs h)) = None \<longleftrightarrow>
     cRealtimeData h = None
     \<and> Log Debug ''Found realtime data switch characteristic (0x%x)'' [U16 vHandleRealtimeData]
         \<notin> set (snd (selectCharacteristics cs h))"
proof (induction cs arbitrary: h)
  case Nil
  show ?case by simp
next
  case (Cons c cs)
  show ?case
    unfolding selectCharacteristics_Cons Cons.IH by (simp add: vHandle_defs)
qed

lemma selectCharacteristics_realtime_handle:
  assumes "\<forall>c. cRealtimeData h = Some c \<longrightarrow> VHandle c = vHandleRealtimeData"
  shows "\<forall>c. cRealtimeData (fst (selectCharacteristics cs h)) = Some c \<longrightarrow> VHandle c = vHandleRealtimeData"
  using assms
proof (induction cs arbitrary: h)
  case Nil
  then show ?case by simp
next
  case (Cons c cs)
  show ?case
    unfolding selectCharacteristics_Cons
    by (rule Cons.IH) (use Cons.prems in \<open>simp add: vHandle_defs\<close>)
qed

lemma scanServices_Cons:
  "UUID s \<noteq> floraServiceUUID \<Longrightarrow> scanServices p (s # ss) h = scanServices p ss h"
  "UUID s = floraServiceUUID \<Longrightarrow> DiscoverCharacteristics p s = Inl err \<Longrightarrow>
     scanServices p (s # ss) h =
       (Inl err,
        [Log Debug ''Found sensor data service on device (%s)'' [S floraServiceUUID],
         OpDiscoverCharacteristics s,
         Log Error ''Characteristics disvovery failed on device'' [E err]])"
  "UUID s = floraServiceUUID \<Longrightarrow> DiscoverCharacteristics p s = Inr cs \<Longrightarrow>
     scanServices p (s # ss) h =
       (fst (scanServices p ss (fst (selectCharacteristics cs h))),
        [Log Debug ''Found sensor data service on device (%s)'' [S floraServiceUUID],
         OpDiscoverCharacteristics s]
        @ snd (selectCharacteristics cs h)
        @ snd (scanServices p ss (fst (selectCharacteristics cs h))))"
  by (simp_all add: Let_def case_prod_beta)

lemma scanServices_quiet:
  "writesAndSensorReads (snd (scanServices p ss h)) = []"
proof (induction ss arbitrary: h)
  case Nil
  show ?case by (simp add: writesAndSensorReads_def)
next
  case (Cons s ss)
  show ?case
  proof (cases "UUID s = floraServiceUUID")
    case False
    show ?thesis unfolding scanServices_Cons(1) [OF False] by (rule Cons.IH)
  next
    case True
    show ?thesis
    proof (cases "DiscoverCharacteristics p s")
      case (Inl err)
      show ?thesis unfolding scanServices_Cons(2) [OF True Inl]
        by (simp add: writesAndSensorReads_def)
    next
      case (Inr cs)
      have "writesAndSensorReads (snd (selectCharacteristics cs h)) = []"
        by (rule selectCharacteristics_quiet)
      moreover have "writesAndSensorReads (snd (scanServices p ss (fst (selectCharacteristics cs h)))) = []"
        by (rule Cons.IH)
      ultimately show ?thesis unfolding scanServices_Cons(3) [OF True Inr]
        by (simp add: writesAndSensorReads_def)
    qed
  qed
qed

lemma scanServices_no_firmware_log:
  "Log Debug ''Firmware version: %s - Battery at %d%%'' args \<notin> set (snd (scanServices p ss h))"
proof (induction ss arbitrary: h)
  case Nil
  show ?case by simp
next
  case (Cons s ss)
  show ?case
  proof (cases "UUID s = floraServiceUUID")
    case False
    show ?thesis unfolding scanServices_Cons(1) [OF False] by (rule Cons.IH)
  next
    case True
    show ?thesis
    proof (cases "DiscoverCharacteristics p s")
      case (Inl err)
      show ?thesis unfolding scanServices_Cons(2) [OF True Inl] by simp
    next
      case (Inr cs)
      show ?thesis unfolding scanServices_Cons(3) [OF True Inr]
        using selectCharacteristics_no_firmware_log [of args cs h]
          Cons.IH [of "fst (selectCharacteristics cs h)"]
        by simp
    qed
  qed
qed

lemma scanServices_realtime:
  assumes "fst (scanServices p ss h) = Inr h'"
  shows "cRealtimeData h' = None \<longleftrightarrow>
     cRealtimeData h = None
     \<and> Log Debug ''Found realtime data switch characteristic (0x%x)'' [U16 vHandleRealtimeData]
         \<notin> set (snd (scanServices p ss h))"
  using assms
proof (induction ss arbitrary: h)
  case Nil
  then show ?case by simp
next
  case (Cons s ss)
  show ?case
  proof (cases "UUID s = floraServiceUUID")
    case False
    show ?thesis
      using Cons.prems unfolding scanServices_Cons(1) [OF False] by (rule Cons.IH)
  next
    case True
    show ?thesis
    proof (cases "DiscoverCharacteristics p s")
      case (Inl err)
      with Cons.prems show ?thesis unfolding scanServices_Cons(2) [OF True Inl] by simp
    next
      case (Inr cs)
      from Cons.prems have "fst (scanServices p ss (fst (selectCharacteristics cs h))) = Inr h'"
        unfolding scanServices_Cons(3) [OF True Inr] by simp
      from Cons.IH [OF this] show ?thesis
        unfolding scanServices_Cons(3) [OF True Inr]
        by (simp add: selectCharacteristics_realtime)
    qed
  qed
qed

lemma scanServices_realtime_handle:
  assumes "fst (scanServices p ss h) = Inr h'"
    and "\<forall>c. cRealtimeData h = Some c \<longrightarrow> VHandle c = vHandleRealtimeData"
  shows "\<forall>c. cRealtimeData h' = Some c \<longrightarrow> VHandle c = vHandleRealtimeData"
  using assms
proof (induction ss arbitrary: h)
  case Nil
  then show ?case by simp
next
  case (Cons s ss)
  show ?case
  proof (cases "UUID s = floraServiceUUID")
    case False
    show ?thesis
      using Cons.prems unfolding scanServices_Cons(1) [OF False] by (rule Cons.IH)
  next
    case True
    show ?thesis
    proof (cases "DiscoverCharacteristics p s")
      case (Inl err)
      with Cons.prems show ?thesis unfolding scanServices_Cons(2) [OF True Inl] by simp
    next
      case (Inr cs)
      from Cons.prems(1) have "fst (scanServices p ss (fst (selectCharacteristics cs h))) = Inr h'"
        unfolding scanServices_Cons(3) [OF True Inr] by simp
      then show ?thesis
        by (rule Cons.IH) (rule selectCharacteristics_realtime_handle [OF Cons.prems(2)])
    qed
  qed
qed

lemma readSensor_effects:
  "filter isWrite (effects (readSensor p h rd)) = []"
  "Log Debug ''Firmware version: %s - Battery at %d%%'' args \<notin> set (effects (readSensor p h rd))"
  "Log Debug ''Found realtime data switch characteristic (0x%x)'' args' \<notin> set (effects (readSensor p h rd))"
  by (simp_all add: readSensor_def split: option.splits sum.splits)

lemma enableRealtime_logs:
  "Log Debug ''Firmware version: %s - Battery at %d%%'' args \<notin> set (effects (enableRealtime p h rd))"
  "Log Debug ''Found realtime data switch characteristic (0x%x)'' args' \<notin> set (effects (enableRealtime p h rd))"
  by (simp_all add: enableRealtime_def readSensor_effects Let_def split: option.splits)

lemma enableRealtime_old_firmware:
  assumes "\<not> ''2.6.6'' < FirmwareVersion rd"
  shows "filter isWrite (effects (enableRealtime p h rd)) = []"
  using assms by (simp add: enableRealtime_def readSensor_effects)

lemma enableRealtime_no_switch:
  assumes "''2.6.6'' < FirmwareVersion rd" and "cRealtimeData h = None"
  shows "enableRealtime p h rd =
     \<lparr>out = None, errOut = Some (Errorf ''Realtime data switch characteristic not found''),
      effects = [Log Error ''No realtime data switch characteristic dicovered. Sensor will not return proper data - aborting.'' []]\<rparr>"
  using assms by (simp add: enableRealtime_def)

lemma enableRealtime_switch:
  assumes "''2.6.6'' < FirmwareVersion rd" and "cRealtimeData h = Some c"
  shows "\<exists>rest. writesAndSensorReads (effects (enableRealtime p h rd))
            = OpWriteCharacteristic c [0xa0, 0xaf] False # rest
          \<and> filter isWrite rest = []"
  using assms
  by (simp add: enableRealtime_def readSensor_def writesAndSensorReads_def Let_def
      split: option.splits sum.splits)

lemma readFirmware_firmware_logged:
  assumes "Log Debug ''Firmware version: %s - Battery at %d%%'' [S fw, U8 batt]
             \<in> set (effects (readFirmware p h))"
  obtains c data where "cFirmware h = Some c" and "ReadCharacteristic p c = Inr data"
    and "fw = FirmwareVersion (decodeFirmwareData data Readings_zero)"
    and "readFirmware p h =
           (enableRealtime p h (decodeFirmwareData data Readings_zero))
           \<lparr>effects :=
              [OpReadCharacteristic c,
               Log Debug ''Firmware version: %s - Battery at %d%%'' [S fw, U8 batt]]
              @ effects (enableRealtime p h (decodeFirmwareData data Readings_zero))\<rparr>"
proof (cases "cFirmware h")
  case None
  with assms show ?thesis by (simp add: readFirmware_def)
next
  case (Some c)
  show ?thesis
  proof (cases "ReadCharacteristic p c")
    case (Inl err)
    with Some assms show ?thesis by (simp add: readFirmware_def)
  next
    case (Inr data)
    define rd where "rd = decodeFirmwareData data Readings_zero"
    from assms Some Inr
    have "fw = FirmwareVersion rd \<and> batt = BatteryLevel rd"
      by (simp add: readFirmware_def Let_def rd_def [symmetric] enableRealtime_logs)
    with Some Inr that [of c data] show ?thesis
      by (simp add: readFirmware_def Let_def rd_def)
  qed
qed

lemma PeripheralConnected_firmware_logged:
  assumes "Log Debug ''Firmware version: %s - Battery at %d%%'' [S fw, U8 batt]
             \<in> set (effects (PeripheralConnected p))"
  obtains services h where "DiscoverServices p = Inr services"
    and "fst (scanServices p services \<lparr>cFirmware = None, cReadings = None, cRealtimeData = None\<rparr>) = Inr h"
    and "Log Debug ''Firmware version: %s - Battery at %d%%'' [S fw, U8 batt]
             \<in> set (effects (readFirmware p h))"
    and "PeripheralConnected p =
           (readFirmware p h)
           \<lparr>effects :=
              [Log Debug ''Connection to device established'' [], OpDiscoverServices]
              @ snd (scanServices p services \<lparr>cFirmware = None, cReadings = None, cRealtimeData = None\<rparr>)
              @ effects (readFirmware p h)\<rparr>"
proof (cases "DiscoverServices p")
  case (Inl err)
  with assms show ?thesis by (simp add: PeripheralConnected_def)
next
  case (Inr services)
  obtain r tr where sc:
    "scanServices p services \<lparr>cFirmware = None, cReadings = None, cRealtimeData = None\<rparr> = (r, tr)"
    by (cases "scanServices p services \<lparr>cFirmware = None, cReadings = None, cRealtimeData = None\<rparr>")
  have quiet: "Log Debug ''Firmware version: %s - Battery at %d%%'' [S fw, U8 batt] \<notin> set tr"
    using scanServices_no_firmware_log
      [of "[S fw, U8 batt]" p services "\<lparr>cFirmware = None, cReadings = None, cRealtimeData = None\<rparr>"]
    by (simp add: sc)
  show ?thesis
  proof (cases r)
    case (Inl err)
    with assms Inr sc quiet show ?thesis by (simp add: PeripheralConnected_def)
  next
    case h: (Inr h)
    from assms Inr sc h quiet
    have "Log Debug ''Firmware version: %s - Battery at %d%%'' [S fw, U8 batt]
             \<in> set (effects (readFirmware p h))"
      by (simp add: PeripheralConnected_def Let_def)
    with Inr sc h that [of services h] show ?thesis
      by (simp add: PeripheralConnected_def Let_def)
  qed
qed

lemma no_writes_if_quiet:
  assumes "writesAndSensorReads tr = []"
  shows "filter isWrite tr = []"
  using assms by (auto simp: writesAndSensorReads_def filter_empty_conv)

lemma FetchReadings_firmware_logged:
  assumes "Log Debug ''Firmware version: %s - Battery at %d%%'' [S fw, U8 batt]
             \<in> set (effects (FetchReadings dev))"
  obtains h tr c data where
    "cFirmware h = Some c"
    and "ReadCharacteristic (peripheral dev) c = Inr data"
    and "fw = FirmwareVersion (decodeFirmwareData data Readings_zero)"
    and "writesAndSensorReads tr = []"
    and "cRealtimeData h = None \<longleftrightarrow>
           Log Debug ''Found realtime data switch characteristic (0x%x)'' [U16 vHandleRealtimeData]
             \<notin> set tr"
    and "\<forall>c. cRealtimeData h = Some c \<longrightarrow> VHandle c = vHandleRealtimeData"
    and "FetchReadings dev =
           (enableRealtime (peripheral dev) h (decodeFirmwareData data Readings_zero))
           \<lparr>effects :=
              [Log Info ''Fetching readings from device'' [],
               Log Debug ''Connection to device established'' [], OpDiscoverServices]
              @ tr
              @ [OpReadCharacteristic c,
                 Log Debug ''Firmware version: %s - Battery at %d%%'' [S fw, U8 batt]]
              @ effects (enableRealtime (peripheral dev) h (decodeFirmwareData data Readings_zero))
              @ [OpCancelConnection, Log Debug ''Disconnected from device'' []]\<rparr>"
proof -
  define p where "p = peripheral dev"
  define h0 where "h0 = \<lparr>cFirmware = None, cReadings = None, cRealtimeData = None\<rparr>"
  from assms have "Log Debug ''Firmware version: %s - Battery at %d%%'' [S fw, U8 batt]
             \<in> set (effects (PeripheralConnected p))"
    by (simp add: FetchReadings_def Let_def p_def)
  then obtain services h where
    sc: "fst (scanServices p services h0) = Inr h"
    and rf: "Log Debug ''Firmware version: %s - Battery at %d%%'' [S fw, U8 batt]
             \<in> set (effects (readFirmware p h))"
    and pc: "PeripheralConnected p =
           (readFirmware p h)
           \<lparr>effects :=
              [Log Debug ''Connection to device established'' [], OpDiscoverServices]
              @ snd (scanServices p services h0)
              @ effects (readFirmware p h)\<rparr>"
    unfolding h0_def by (rule PeripheralConnected_firmware_logged)
  from rf obtain c data where
    c: "cFirmware h = Some c" and d: "ReadCharacteristic p c = Inr data"
    and fw: "fw = FirmwareVersion (decodeFirmwareData data Readings_zero)"
    and rfe: "readFirmware p h =
           (enableRealtime p h (decodeFirmwareData data Readings_zero))
           \<lparr>effects :=
              [OpReadCharacteristic c,
               Log Debug ''Firmware version: %s - Battery at %d%%'' [S fw, U8 batt]]
              @ effects (enableRealtime p h (decodeFirmwareData data Readings_zero))\<rparr>"
    by (rule readFirmware_firmware_logged)
  have q: "writesAndSensorReads (snd (scanServices p services h0)) = []"
    by (rule scanServices_quiet)
  have r: "cRealtimeData h = None \<longleftrightarrow>
           Log Debug ''Found realtime data switch characteristic (0x%x)'' [U16 vHandleRealtimeData]
             \<notin> set (snd (scanServices p services h0))"
    using scanServices_realtime [OF sc] by (simp add: h0_def)
  have v: "\<forall>c. cRealtimeData h = Some c \<longrightarrow> VHandle c = vHandleRealtimeData"
    by (rule scanServices_realtime_handle [OF sc]) (simp add: h0_def)
  have "FetchReadings dev =
           (enableRealtime p h (decodeFirmwareData data Readings_zero))
           \<lparr>effects :=
              [Log Info ''Fetching readings from device'' [],
               Log Debug ''Connection to device established'' [], OpDiscoverServices]
              @ snd (scanServices p services h0)
              @ [OpReadCharacteristic c,
                 Log Debug ''Firmware version: %s - Battery at %d%%'' [S fw, U8 batt]]
              @ effects (enableRealtime p h (decodeFirmwareData data Readings_zero))
              @ [OpCancelConnection, Log Debug ''Disconnected from device'' []]\<rparr>"
    unfolding FetchReadings_def Let_def p_def [symmetric] pc rfe by simp
  with c d fw q r v show ?thesis
    unfolding p_def by (rule that)
qed

subsection \<open>Discovery and the poll tick\<close>

lemma PeripheralDiscovered_not_ignored:
  assumes "\<forall>d \<in> set devs. \<forall>conf. confMap (ID (peripheral d)) = Some conf \<longrightarrow> \<not> Ignore conf"
  shows "\<forall>d \<in> set (PeripheralDiscovered confMap logger devs p).
           \<forall>conf. confMap (ID (peripheral d)) = Some conf \<longrightarrow> \<not> Ignore conf"
  using assms
  by (auto simp: PeripheralDiscovered_def Let_def split: option.splits if_splits)

lemma foldl_PeripheralDiscovered_not_ignored:
  assumes "\<forall>d \<in> set devs. \<forall>conf. confMap (ID (peripheral d)) = Some conf \<longrightarrow> \<not> Ignore conf"
  shows "\<forall>d \<in> set (foldl (PeripheralDiscovered confMap logger) devs ps).
           \<forall>conf. confMap (ID (peripheral d)) = Some conf \<longrightarrow> \<not> Ignore conf"
  using assms
proof (induction ps arbitrary: devs)
  case Nil
  then show ?case by simp
next
  case (Cons p ps)
  show ?case
    unfolding foldl_Cons
    by (rule Cons.IH) (rule PeripheralDiscovered_not_ignored [OF Cons.prems])
qed

lemma pollTick_append: "pollTick (xs @ ys) = pollTick xs @ pollTick ys"
  by (induction xs) (auto simp: Let_def split: option.splits)

lemma fetchCalls_pollTick: "fetchCalls (pollTick roster) = roster"
  by (induction roster) (auto simp: Let_def split: option.splits)

lemma influxWrites_pollTick: "influxWrites (pollTick roster) = []"
  by (induction roster) (auto simp: Let_def split: option.splits)

subsection \<open>Short payloads\<close>

text \<open>
  C2, as the code has it: neither decoder reports an error, whatever the length of
  the payload. On a firmware payload shorter than 2 bytes \<^verbatim>\<open>decodeFirmwareData\<close> sets
  the battery level to byte 0, or to 0 when there is none, and the firmware version to
  the empty string. On a sensor payload shorter than 10 bytes \<^verbatim>\<open>decodeSensorData\<close>
  decodes each field whose bytes are all there and sets every other field to 0; the
  conductivity is then always 0.
\<close>

theorem decoders_short_payload:
  "(length fw < 2 \<longrightarrow>
      decodeFirmwareData fw rd =
        rd\<lparr>BatteryLevel := (if fw = [] then 0 else fw ! 0), FirmwareVersion := []\<rparr>)
   \<and> (length sd < 10 \<longrightarrow>
      decodeSensorData sd rd =
        rd\<lparr>Temperature :=
             (if 2 \<le> length sd
              then float64_div (float64_of_int16 (LittleEndian_Uint16 (sd ! 0) (sd ! 1))) 10
              else 0),
           Light := (if 5 \<le> length sd then LittleEndian_Uint16 (sd ! 3) (sd ! 4) else 0),
           Moisture := (if 8 \<le> length sd then sd ! 7 else 0),
           Conductivity := 0\<rparr>)"
proof -
  have z: "float64_div (float64_of_int16 0) 10 = 0"
    by (simp add: float64_div_def float64_of_int16_def float64_round_def)
  show ?thesis
    by (simp add: decodeFirmwareData_fields decodeSensorData_fields Buffer_String_def z)
qed

text \<open>
  A 1-byte firmware payload and a 5-byte sensor payload: battery level, temperature
  and light are decoded, the other fields are zero.
\<close>

theorem decoders_short_payload_witness:
  "length [64 :: byte] < 2
   \<and> decodeFirmwareData [64] Readings_zero = Readings_zero\<lparr>BatteryLevel := 64\<rparr>
   \<and> length [0xCE, 0x00, 0x00, 0x90, 0x01 :: byte] < 10
   \<and> decodeSensorData [0xCE, 0x00, 0x00, 0x90, 0x01] Readings_zero
       = Readings_zero\<lparr>Temperature := float64_div 206 10, Light := 400\<rparr>"
proof -
  have l: "LittleEndian_Uint16 0xCE 0x00 = 206" "LittleEndian_Uint16 0x90 0x01 = 400"
    by (simp_all add: LittleEndian_Uint16_def)
  have t: "float64_of_int16 206 = 206" by (simp add: float64_of_int16_def)
  show ?thesis
    using decoders_short_payload [of "[64]" Readings_zero "[0xCE, 0x00, 0x00, 0x90, 0x01]"]
    by (simp add: l t Readings_zero_def)
qed

text \<open>
  C2 as stated fails: the empty firmware payload and a 3-byte sensor payload are
  decoded to a \<^verbatim>\<open>Readings\<close> value, and the session that reads these two payloads
  returns that value and no error.
\<close>

theorem decoders_short_payload_counterexample:
  "length ([] :: byte list) < 2
   \<and> decodeFirmwareData [] Readings_zero = Readings_zero
   \<and> length [0xCE, 0x00, 0x00 :: byte] < 10
   \<and> decodeSensorData [0xCE, 0x00, 0x00] Readings_zero
       = Readings_zero\<lparr>Temperature := float64_div 206 10\<rparr>
   \<and> out (FetchReadings (deviceOf (floraPeripheral ''C4:7C:8D:00:00:01'' [0x38, 0x35] [] [0xCE, 0x00, 0x00])))
       = Some (Readings_zero\<lparr>Temperature := float64_div 206 10\<rparr>)
   \<and> errOut (FetchReadings (deviceOf (floraPeripheral ''C4:7C:8D:00:00:01'' [0x38, 0x35] [] [0xCE, 0x00, 0x00])))
       = None"
  by code_simp

subsection \<open>What FetchReadings returns\<close>

lemma readSensor_out:
  "errOut (readSensor p h rd) \<noteq> None \<longrightarrow> out (readSensor p h rd) = None"
  "out (readSensor p h rd) = Some rd' \<Longrightarrow>
     \<exists>cR sd. OpReadLongCharacteristic cR \<in> set (effects (readSensor p h rd))
       \<and> ReadLongCharacteristic p cR = Inr sd \<and> rd' = decodeSensorData sd rd"
  by (auto simp: readSensor_def split: option.splits sum.splits)

lemma enableRealtime_out:
  "errOut (enableRealtime p h rd) \<noteq> None \<longrightarrow> out (enableRealtime p h rd) = None"
  "out (enableRealtime p h rd) = Some rd' \<Longrightarrow>
     \<exists>cR sd. OpReadLongCharacteristic cR \<in> set (effects (enableRealtime p h rd))
       \<and> ReadLongCharacteristic p cR = Inr sd \<and> rd' = decodeSensorData sd rd"
  using readSensor_out(1) [of p h rd] readSensor_out(2) [of p h rd rd']
  by (auto simp: enableRealtime_def Let_def split: option.splits if_splits)

lemma readFirmware_out:
  "errOut (readFirmware p h) \<noteq> None \<longrightarrow> out (readFirmware p h) = None"
  "out (readFirmware p h) = Some rd' \<Longrightarrow>
     \<exists>cF fw cR sd. OpReadCharacteristic cF \<in> set (effects (readFirmware p h))
       \<and> ReadCharacteristic p cF = Inr fw
       \<and> OpReadLongCharacteristic cR \<in> set (effects (readFirmware p h))
       \<and> ReadLongCharacteristic p cR = Inr sd
       \<and> rd' = decodeSensorData sd (decodeFirmwareData fw Readings_zero)"
proof -
  show "errOut (readFirmware p h) \<noteq> None \<longrightarrow> out (readFirmware p h) = None"
    using enableRealtime_out(1)
    by (auto simp: readFirmware_def Let_def split: option.splits sum.splits)
next
  assume a: "out (readFirmware p h) = Some rd'"
  then obtain cF where cF: "cFirmware h = Some cF"
    by (cases "cFirmware h") (simp_all add: readFirmware_def)
  with a obtain fw where fw: "ReadCharacteristic p cF = Inr fw"
    by (cases "ReadCharacteristic p cF") (simp_all add: readFirmware_def)
  from a cF fw have "out (enableRealtime p h (decodeFirmwareData fw Readings_zero)) = Some rd'"
    by (simp add: readFirmware_def Let_def)
  from enableRealtime_out(2) [OF this] obtain cR sd where
    "OpReadLongCharacteristic cR \<in> set (effects (enableRealtime p h (decodeFirmwareData fw Readings_zero)))"
    "ReadLongCharacteristic p cR = Inr sd" "rd' = decodeSensorData sd (decodeFirmwareData fw Readings_zero)"
    by blast
  with cF fw show "\<exists>cF fw cR sd. OpReadCharacteristic cF \<in> set (effects (readFirmware p h))
       \<and> ReadCharacteristic p cF = Inr fw
       \<and> OpReadLongCharacteristic cR \<in> set (effects (readFirmware p h))
       \<and> ReadLongCharacteristic p cR = Inr sd
       \<and> rd' = decodeSensorData sd (decodeFirmwareData fw Readings_zero)"
    by (intro exI [of _ cF] exI [of _ fw] exI [of _ cR] exI [of _ sd])
       (simp add: readFirmware_def Let_def)
qed

lemma PeripheralConnected_out:
  "errOut (PeripheralConnected p) \<noteq> None \<longrightarrow> out (PeripheralConnected p) = None"
  "out (PeripheralConnected p) = Some rd' \<Longrightarrow>
     \<exists>cF fw cR sd. OpReadCharacteristic cF \<in> set (effects (PeripheralConnected p))
       \<and> ReadCharacteristic p cF = Inr fw
       \<and> OpReadLongCharacteristic cR \<in> set (effects (PeripheralConnected p))
       \<and> ReadLongCharacteristic p cR = Inr sd
       \<and> rd' = decodeSensorData sd (decodeFirmwareData fw Readings_zero)"
proof -
  show "errOut (PeripheralConnected p) \<noteq> None \<longrightarrow> out (PeripheralConnected p) = None"
    using readFirmware_out(1)
    by (auto simp: PeripheralConnected_def Let_def split: sum.splits prod.splits)
next
  assume a: "out (PeripheralConnected p) = Some rd'"
  then obtain services where s: "DiscoverServices p = Inr services"
    by (cases "DiscoverServices p") (simp_all add: PeripheralConnected_def)
  obtain r tr where sc:
    "scanServices p services \<lparr>cFirmware = None, cReadings = None, cRealtimeData = None\<rparr> = (r, tr)"
    by (cases "scanServices p services \<lparr>cFirmware = None, cReadings = None, cRealtimeData = None\<rparr>")
  from a s sc obtain h where h: "r = Inr h"
    by (cases r) (simp_all add: PeripheralConnected_def)
  from a s sc h have "out (readFirmware p h) = Some rd'"
    by (simp add: PeripheralConnected_def Let_def)
  from readFirmware_out(2) [OF this] obtain cF fw cR sd where
    "OpReadCharacteristic cF \<in> set (effects (readFirmware p h))"
    "ReadCharacteristic p cF = Inr fw"
    "OpReadLongCharacteristic cR \<in> set (effects (readFirmware p h))"
    "ReadLongCharacteristic p cR = Inr sd"
    "rd' = decodeSensorData sd (decodeFirmwareData fw Readings_zero)"
    by blast
  with s sc h show "\<exists>cF fw cR sd. OpReadCharacteristic cF \<in> set (effects (PeripheralConnected p))
       \<and> ReadCharacteristic p cF = Inr fw
       \<and> OpReadLongCharacteristic cR \<in> set (effects (PeripheralConnected p))
       \<and> ReadLongCharacteristic p cR = Inr sd
       \<and> rd' = decodeSensorData sd (decodeFirmwareData fw Readings_zero)"
    by (intro exI [of _ cF] exI [of _ fw] exI [of _ cR] exI [of _ sd])
       (simp add: PeripheralConnected_def Let_def)
qed

text \<open>
  C3, as the code has it: \<^verbatim>\<open>FetchReadings\<close> never returns a \<^verbatim>\<open>Readings\<close> value together
  with an error, and it returns one only when the firmware read and the sensor read
  both succeeded; the value is then the result of \<^verbatim>\<open>decodeSensorData\<close> after
  \<^verbatim>\<open>decodeFirmwareData\<close> on the two payloads, starting from the zero value. The lengths
  of the payloads are not checked.
\<close>

theorem FetchReadings_all_or_nothing:
  "(errOut (FetchReadings dev) \<noteq> None \<longrightarrow> out (FetchReadings dev) = None)
   \<and> (\<forall>rd. out (FetchReadings dev) = Some rd \<longrightarrow>
        (\<exists>cF fw cR sd.
           OpReadCharacteristic cF \<in> set (effects (FetchReadings dev))
           \<and> ReadCharacteristic (peripheral dev) cF = Inr fw
           \<and> OpReadLongCharacteristic cR \<in> set (effects (FetchReadings dev))
           \<and> ReadLongCharacteristic (peripheral dev) cR = Inr sd
           \<and> rd = decodeSensorData sd (decodeFirmwareData fw Readings_zero)))"
proof (intro conjI allI impI)
  show "out (FetchReadings dev) = None" if "errOut (FetchReadings dev) \<noteq> None"
    using that PeripheralConnected_out(1) [of "peripheral dev"]
    by (simp add: FetchReadings_def Let_def)
next
  fix rd
  assume "out (FetchReadings dev) = Some rd"
  then have "out (PeripheralConnected (peripheral dev)) = Some rd"
    by (simp add: FetchReadings_def Let_def)
  from PeripheralConnected_out(2) [OF this] obtain cF fw cR sd where
    "OpReadCharacteristic cF \<in> set (effects (PeripheralConnected (peripheral dev)))"
    "ReadCharacteristic (peripheral dev) cF = Inr fw"
    "OpReadLongCharacteristic cR \<in> set (effects (PeripheralConnected (peripheral dev)))"
    "ReadLongCharacteristic (peripheral dev) cR = Inr sd"
    "rd = decodeSensorData sd (decodeFirmwareData fw Readings_zero)"
    by blast
  then show "\<exists>cF fw cR sd.
           OpReadCharacteristic cF \<in> set (effects (FetchReadings dev))
           \<and> ReadCharacteristic (peripheral dev) cF = Inr fw
           \<and> OpReadLongCharacteristic cR \<in> set (effects (FetchReadings dev))
           \<and> ReadLongCharacteristic (peripheral dev) cR = Inr sd
           \<and> rd = decodeSensorData sd (decodeFirmwareData fw Readings_zero)"
    by (intro exI [of _ cF] exI [of _ fw] exI [of _ cR] exI [of _ sd])
       (simp add: FetchReadings_def Let_def)
qed

text \<open>
  A session that fails returns no value; a session with firmware 2.6.6 and the sensor
  record of the spec's example returns all six fields.
\<close>

theorem FetchReadings_all_or_nothing_witness:
  "errOut (FetchReadings (deviceOf (brokenPeripheral ''C4:7C:8D:00:00:02''))) \<noteq> None
   \<and> out (FetchReadings (deviceOf (brokenPeripheral ''C4:7C:8D:00:00:02''))) = None
   \<and> out (FetchReadings (deviceOf
          (floraPeripheral ''C4:7C:8D:00:00:01'' [0x33, 0x35, 0x38] firmware_2_6_6 sensorPayload)))
       = Some \<lparr>FirmwareVersion = ''2.6.6'', BatteryLevel = 64, Temperature = float64_div 206 10,
               Moisture = 40, Light = 400, Conductivity = 232\<rparr>
   \<and> (\<exists>cF fw cR sd.
         OpReadCharacteristic cF \<in> set (effects (FetchReadings (deviceOf
           (floraPeripheral ''C4:7C:8D:00:00:01'' [0x33, 0x35, 0x38] firmware_2_6_6 sensorPayload))))
         \<and> ReadCharacteristic
               (floraPeripheral ''C4:7C:8D:00:00:01'' [0x33, 0x35, 0x38] firmware_2_6_6 sensorPayload) cF
             = Inr fw
         \<and> OpReadLongCharacteristic cR \<in> set (effects (FetchReadings (deviceOf
           (floraPeripheral ''C4:7C:8D:00:00:01'' [0x33, 0x35, 0x38] firmware_2_6_6 sensorPayload))))
         \<and> ReadLongCharacteristic
               (floraPeripheral ''C4:7C:8D:00:00:01'' [0x33, 0x35, 0x38] firmware_2_6_6 sensorPayload) cR
             = Inr sd
         \<and> \<lparr>FirmwareVersion = ''2.6.6'', BatteryLevel = 64, Temperature = float64_div 206 10,
               Moisture = 40, Light = 400, Conductivity = 232\<rparr>
             = decodeSensorData sd (decodeFirmwareData fw Readings_zero))"
proof -
  have e: "errOut (FetchReadings (deviceOf (brokenPeripheral ''C4:7C:8D:00:00:02''))) \<noteq> None"
    by code_simp
  have o: "out (FetchReadings (deviceOf
          (floraPeripheral ''C4:7C:8D:00:00:01'' [0x33, 0x35, 0x38] firmware_2_6_6 sensorPayload)))
       = Some \<lparr>FirmwareVersion = ''2.6.6'', BatteryLevel = 64, Temperature = float64_div 206 10,
               Moisture = 40, Light = 400, Conductivity = 232\<rparr>"
    by code_simp
  have p: "peripheral (deviceOf p) = p" for p by (simp add: deviceOf_def)
  show ?thesis
    using FetchReadings_all_or_nothing [of "deviceOf (brokenPeripheral ''C4:7C:8D:00:00:02'')"]
      FetchReadings_all_or_nothing [of "deviceOf
          (floraPeripheral ''C4:7C:8D:00:00:01'' [0x33, 0x35, 0x38] firmware_2_6_6 sensorPayload)"]
      e o
    by (simp only: p) blast
qed

text \<open>
  C3 as stated fails: when the sensor read delivers 3 bytes, \<^verbatim>\<open>FetchReadings\<close>
  returns, without an error, a value whose moisture, light and conductivity are not
  decoded from any byte of the payload.
\<close>

theorem FetchReadings_all_or_nothing_counterexample:
  "length [0xCE, 0x00, 0x00 :: byte] < 10
   \<and> ReadLongCharacteristic
         (floraPeripheral ''C4:7C:8D:00:00:01'' [0x33, 0x35, 0x38] firmware_2_6_6 [0xCE, 0x00, 0x00])
         \<lparr>VHandle = 0x35\<rparr>
       = Inr [0xCE, 0x00, 0x00]
   \<and> out (FetchReadings (deviceOf
          (floraPeripheral ''C4:7C:8D:00:00:01'' [0x33, 0x35, 0x38] firmware_2_6_6 [0xCE, 0x00, 0x00])))
       = Some \<lparr>FirmwareVersion = ''2.6.6'', BatteryLevel = 64, Temperature = float64_div 206 10,
               Moisture = 0, Light = 0, Conductivity = 0\<rparr>
   \<and> errOut (FetchReadings (deviceOf
          (floraPeripheral ''C4:7C:8D:00:00:01'' [0x33, 0x35, 0x38] firmware_2_6_6 [0xCE, 0x00, 0x00])))
       = None"
  by code_simp

subsection \<open>The realtime switch\<close>

text \<open>
  C4, as the code has it. The session logs the decoded firmware version right after
  \<^verbatim>\<open>decodeFirmwareData\<close>, and it logs the realtime switch characteristic when it
  finds one. In a session that decoded the version \<open>fw\<close>: if \<open>fw\<close> is "2.6.6" or
  lower in the lexicographic order, no write is issued. If \<open>fw\<close> is greater and the
  realtime switch characteristic was found, the writes and sensor reads of the session
  begin with the write of the two bytes \<open>a0 af\<close> to that characteristic, and no
  other write follows: it is issued exactly once and before any sensor read. If
  \<open>fw\<close> is greater and the characteristic was not found, the session issues neither
  a write nor a sensor read and ends with the error "Realtime data switch
  characteristic not found".
\<close>

theorem FetchReadings_realtime_switch:
  assumes "Log Debug ''Firmware version: %s - Battery at %d%%'' [S fw, U8 batt]
             \<in> set (effects (FetchReadings dev))"
  shows "(fw \<le> ''2.6.6'' \<longrightarrow> filter isWrite (effects (FetchReadings dev)) = [])
       \<and> (''2.6.6'' < fw \<longrightarrow>
           (if Log Debug ''Found realtime data switch characteristic (0x%x)'' [U16 vHandleRealtimeData]
                 \<in> set (effects (FetchReadings dev))
            then \<exists>c rest.
                   writesAndSensorReads (effects (FetchReadings dev))
                     = OpWriteCharacteristic c [0xa0, 0xaf] False # rest
                   \<and> VHandle c = vHandleRealtimeData
                   \<and> filter isWrite rest = []
            else writesAndSensorReads (effects (FetchReadings dev)) = []
                 \<and> out (FetchReadings dev) = None
                 \<and> errOut (FetchReadings dev)
                     = Some (Errorf ''Realtime data switch characteristic not found'')))"
proof -
  from assms obtain h tr c data where
    fw: "fw = FirmwareVersion (decodeFirmwareData data Readings_zero)"
    and q: "writesAndSensorReads tr = []"
    and r: "cRealtimeData h = None \<longleftrightarrow>
           Log Debug ''Found realtime data switch characteristic (0x%x)'' [U16 vHandleRealtimeData]
             \<notin> set tr"
    and v: "\<forall>c. cRealtimeData h = Some c \<longrightarrow> VHandle c = vHandleRealtimeData"
    and f: "FetchReadings dev =
           (enableRealtime (peripheral dev) h (decodeFirmwareData data Readings_zero))
           \<lparr>effects :=
              [Log Info ''Fetching readings from device'' [],
               Log Debug ''Connection to device established'' [], OpDiscoverServices]
              @ tr
              @ [OpReadCharacteristic c,
                 Log Debug ''Firmware version: %s - Battery at %d%%'' [S fw, U8 batt]]
              @ effects (enableRealtime (peripheral dev) h (decodeFirmwareData data Readings_zero))
              @ [OpCancelConnection, Log Debug ''Disconnected from device'' []]\<rparr>"
    by (rule FetchReadings_firmware_logged)
  define rd where "rd = decodeFirmwareData data Readings_zero"
  define er where "er = enableRealtime (peripheral dev) h rd"
  have ws: "writesAndSensorReads (effects (FetchReadings dev)) = writesAndSensorReads (effects er)"
    unfolding f using q by (simp add: writesAndSensorReads_def er_def rd_def)
  have w: "filter isWrite (effects (FetchReadings dev)) = filter isWrite (effects er)"
    unfolding f using no_writes_if_quiet [OF q] by (simp add: er_def rd_def)
  have found: "Log Debug ''Found realtime data switch characteristic (0x%x)'' [U16 vHandleRealtimeData]
                 \<in> set (effects (FetchReadings dev)) \<longleftrightarrow> cRealtimeData h \<noteq> None"
    unfolding f using r enableRealtime_logs(2) [of "[U16 vHandleRealtimeData]" "peripheral dev" h rd]
    by (simp add: rd_def)
  have old: "filter isWrite (effects (FetchReadings dev)) = []" if "fw \<le> ''2.6.6''"
  proof -
    from that have "\<not> ''2.6.6'' < FirmwareVersion rd" by (simp add: fw rd_def not_less)
    then show ?thesis unfolding w er_def by (rule enableRealtime_old_firmware)
  qed
  have new_found: "\<exists>c rest.
                   writesAndSensorReads (effects (FetchReadings dev))
                     = OpWriteCharacteristic c [0xa0, 0xaf] False # rest
                   \<and> VHandle c = vHandleRealtimeData
                   \<and> filter isWrite rest = []"
    if "''2.6.6'' < fw" and "cRealtimeData h \<noteq> None"
  proof -
    from that(2) obtain c' where c': "cRealtimeData h = Some c'" by auto
    with v have "VHandle c' = vHandleRealtimeData" by simp
    moreover from that(1) have "''2.6.6'' < FirmwareVersion rd" by (simp add: fw rd_def)
    from enableRealtime_switch [OF this c', of "peripheral dev"]
    obtain rest where "writesAndSensorReads (effects er) = OpWriteCharacteristic c' [0xa0, 0xaf] False # rest"
      and "filter isWrite rest = []" unfolding er_def by blast
    ultimately show ?thesis unfolding ws by blast
  qed
  have new_missing: "writesAndSensorReads (effects (FetchReadings dev)) = []
                 \<and> out (FetchReadings dev) = None
                 \<and> errOut (FetchReadings dev)
                     = Some (Errorf ''Realtime data switch characteristic not found'')"
    if "''2.6.6'' < fw" and "cRealtimeData h = None"
  proof -
    from that(1) have "''2.6.6'' < FirmwareVersion rd" by (simp add: fw rd_def)
    from enableRealtime_no_switch [OF this that(2), of "peripheral dev"]
    show ?thesis unfolding ws unfolding f er_def rd_def [symmetric]
      by (simp add: writesAndSensorReads_def)
  qed
  show ?thesis
    using old new_found new_missing unfolding found by simp
qed

text \<open>
  Three sessions: firmware 2.6.6, firmware 3.1.8 with the realtime switch, firmware
  3.1.8 without it.
\<close>

theorem FetchReadings_realtime_switch_witness:
  "(Log Debug ''Firmware version: %s - Battery at %d%%'' [S ''2.6.6'', U8 64]
      \<in> set (effects (FetchReadings (deviceOf
            (floraPeripheral ''C4:7C:8D:00:00:01'' [0x33, 0x35, 0x38] firmware_2_6_6 sensorPayload))))
    \<and> ''2.6.6'' \<le> ''2.6.6''
    \<and> filter isWrite (effects (FetchReadings (deviceOf
            (floraPeripheral ''C4:7C:8D:00:00:01'' [0x33, 0x35, 0x38] firmware_2_6_6 sensorPayload)))) = [])
   \<and> (Log Debug ''Firmware version: %s - Battery at %d%%'' [S ''3.1.8'', U8 100]
      \<in> set (effects (FetchReadings (deviceOf
            (floraPeripheral ''C4:7C:8D:00:00:03'' [0x33, 0x35, 0x38] firmware_3_1_8 sensorPayload))))
    \<and> ''2.6.6'' < ''3.1.8''
    \<and> Log Debug ''Found realtime data switch characteristic (0x%x)'' [U16 vHandleRealtimeData]
      \<in> set (effects (FetchReadings (deviceOf
            (floraPeripheral ''C4:7C:8D:00:00:03'' [0x33, 0x35, 0x38] firmware_3_1_8 sensorPayload))))
    \<and> (\<exists>c rest.
          writesAndSensorReads (effects (FetchReadings (deviceOf
            (floraPeripheral ''C4:7C:8D:00:00:03'' [0x33, 0x35, 0x38] firmware_3_1_8 sensorPayload))))
            = OpWriteCharacteristic c [0xa0, 0xaf] False # rest
          \<and> VHandle c = vHandleRealtimeData
          \<and> filter isWrite rest = []))
   \<and> (Log Debug ''Firmware version: %s - Battery at %d%%'' [S ''3.1.8'', U8 100]
      \<in> set (effects (FetchReadings (deviceOf
            (floraPeripheral ''C4:7C:8D:00:00:04'' [0x35, 0x38] firmware_3_1_8 sensorPayload))))
    \<and> Log Debug ''Found realtime data switch characteristic (0x%x)'' [U16 vHandleRealtimeData]
      \<notin> set (effects (FetchReadings (deviceOf
            (floraPeripheral ''C4:7C:8D:00:00:04'' [0x35, 0x38] firmware_3_1_8 sensorPayload))))
    \<and> writesAndSensorReads (effects (FetchReadings (deviceOf
            (floraPeripheral ''C4:7C:8D:00:00:04'' [0x35, 0x38] firmware_3_1_8 sensorPayload)))) = []
    \<and> errOut (FetchReadings (deviceOf
            (floraPeripheral ''C4:7C:8D:00:00:04'' [0x35, 0x38] firmware_3_1_8 sensorPayload)))
        = Some (Errorf ''Realtime data switch characteristic not found''))"
proof -
  have a1: "Log Debug ''Firmware version: %s - Battery at %d%%'' [S ''2.6.6'', U8 64]
      \<in> set (effects (FetchReadings (deviceOf
            (floraPeripheral ''C4:7C:8D:00:00:01'' [0x33, 0x35, 0x38] firmware_2_6_6 sensorPayload))))"
    by code_simp
  have a2: "Log Debug ''Firmware version: %s - Battery at %d%%'' [S ''3.1.8'', U8 100]
      \<in> set (effects (FetchReadings (deviceOf
            (floraPeripheral ''C4:7C:8D:00:00:03'' [0x33, 0x35, 0x38] firmware_3_1_8 sensorPayload))))"
    by code_simp
  have a3: "Log Debug ''Firmware version: %s - Battery at %d%%'' [S ''3.1.8'', U8 100]
      \<in> set (effects (FetchReadings (deviceOf
            (floraPeripheral ''C4:7C:8D:00:00:04'' [0x35, 0x38] firmware_3_1_8 sensorPayload))))"
    by code_simp
  have f2: "Log Debug ''Found realtime data switch characteristic (0x%x)'' [U16 vHandleRealtimeData]
      \<in> set (effects (FetchReadings (deviceOf
            (floraPeripheral ''C4:7C:8D:00:00:03'' [0x33, 0x35, 0x38] firmware_3_1_8 sensorPayload))))"
    by code_simp
  have f3: "Log Debug ''Found realtime data switch characteristic (0x%x)'' [U16 vHandleRealtimeData]
      \<notin> set (effects (FetchReadings (deviceOf
            (floraPeripheral ''C4:7C:8D:00:00:04'' [0x35, 0x38] firmware_3_1_8 sensorPayload))))"
    by code_simp
  have v: "''2.6.6'' \<le> ''2.6.6''" "''2.6.6'' < ''3.1.8''" by simp_all
  from FetchReadings_realtime_switch [OF a1] FetchReadings_realtime_switch [OF a2]
    FetchReadings_realtime_switch [OF a3] a1 a2 a3 f2 f3 v
  show ?thesis by (simp only: if_True if_False simp_thms)
qed

text \<open>
  C4 as stated fails: a session that decodes the version "3.1.8", greater than
  "2.6.6", on a peripheral without the realtime switch characteristic issues no write.
\<close>

theorem FetchReadings_realtime_switch_counterexample:
  "Log Debug ''Firmware version: %s - Battery at %d%%'' [S ''3.1.8'', U8 100]
     \<in> set (effects (FetchReadings (deviceOf
           (floraPeripheral ''C4:7C:8D:00:00:01'' [0x35, 0x38] firmware_3_1_8 sensorPayload))))
   \<and> ''2.6.6'' < ''3.1.8''
   \<and> length (filter isWrite (effects (FetchReadings (deviceOf
           (floraPeripheral ''C4:7C:8D:00:00:01'' [0x35, 0x38] firmware_3_1_8 sensorPayload))))) = 0"
  by code_simp

subsection \<open>The poll tick and discovery\<close>

text \<open>
  C5 does not hold of this revision: a poll tick makes no write to the InfluxDB
  client, for any roster. For the roster of one device whose \<^verbatim>\<open>FetchReadings\<close>
  succeeds, the tick consists of the call and of the log line "Received readings".
\<close>

theorem pollTick_no_influx_write:
  "influxWrites (pollTick roster) = []
   \<and> out (FetchReadings (deviceOf
          (floraPeripheral ''C4:7C:8D:00:00:01'' [0x33, 0x35, 0x38] firmware_2_6_6 sensorPayload)))
       = Some \<lparr>FirmwareVersion = ''2.6.6'', BatteryLevel = 64, Temperature = float64_div 206 10,
               Moisture = 40, Light = 400, Conductivity = 232\<rparr>
   \<and> errOut (FetchReadings (deviceOf
          (floraPeripheral ''C4:7C:8D:00:00:01'' [0x33, 0x35, 0x38] firmware_2_6_6 sensorPayload)))
       = None
   \<and> pollTick [deviceOf
          (floraPeripheral ''C4:7C:8D:00:00:01'' [0x33, 0x35, 0x38] firmware_2_6_6 sensorPayload)]
       = [CallFetchReadings
            (deviceOf (floraPeripheral ''C4:7C:8D:00:00:01'' [0x33, 0x35, 0x38] firmware_2_6_6 sensorPayload))
            (effects (FetchReadings (deviceOf
               (floraPeripheral ''C4:7C:8D:00:00:01'' [0x33, 0x35, 0x38] firmware_2_6_6 sensorPayload)))),
          DeviceLog
            (deviceOf (floraPeripheral ''C4:7C:8D:00:00:01'' [0x33, 0x35, 0x38] firmware_2_6_6 sensorPayload))
            Info ''Received readings: %s''
            [R (Some \<lparr>FirmwareVersion = ''2.6.6'', BatteryLevel = 64, Temperature = float64_div 206 10,
                       Moisture = 40, Light = 400, Conductivity = 232\<rparr>)]]"
proof -
  have o: "out (FetchReadings (deviceOf
          (floraPeripheral ''C4:7C:8D:00:00:01'' [0x33, 0x35, 0x38] firmware_2_6_6 sensorPayload)))
       = Some \<lparr>FirmwareVersion = ''2.6.6'', BatteryLevel = 64, Temperature = float64_div 206 10,
               Moisture = 40, Light = 400, Conductivity = 232\<rparr>"
    by code_simp
  have e: "errOut (FetchReadings (deviceOf
          (floraPeripheral ''C4:7C:8D:00:00:01'' [0x33, 0x35, 0x38] firmware_2_6_6 sensorPayload)))
       = None"
    by code_simp
  show ?thesis
    by (simp add: influxWrites_pollTick o e Let_def)
qed

text \<open>
  C6: for every scan, every configuration mapping and every timeout, no device of the
  roster that \<^verbatim>\<open>Discover\<close> returns has a configuration with \<^verbatim>\<open>Ignore\<close> set.
\<close>

theorem Discover_never_ignored:
  assumes "Discover timeout confMap logger newDevice scan = Inr roster"
    and "dev \<in> set roster"
    and "confMap (ID (peripheral dev)) = Some conf"
  shows "\<not> Ignore conf"
proof -
  from assms(1) have "roster = foldl (PeripheralDiscovered confMap logger) [] (scan timeout)"
    by (simp add: Discover_def split: option.splits)
  with foldl_PeripheralDiscovered_not_ignored [of "[]" confMap logger "scan timeout"] assms(2,3)
  show ?thesis by auto
qed

text \<open>
  Two advertising sensors, the first of them ignored by its configuration: the roster
  holds the second only.
\<close>

theorem Discover_never_ignored_witness:
  "Discover 10000000000
     [''C4:7C:8D:00:00:01'' \<mapsto> \<lparr>Config.Alias = ''basil'', Ignore = False\<rparr>,
      ''C4:7C:8D:00:00:02'' \<mapsto> \<lparr>Config.Alias = [], Ignore = True\<rparr>]
     [] None
     (\<lambda>t. [floraPeripheral ''C4:7C:8D:00:00:02'' [] [] [],
            floraPeripheral ''C4:7C:8D:00:00:01'' [] [] []])
   = Inr [\<lparr>peripheral = floraPeripheral ''C4:7C:8D:00:00:01'' [] [] [],
           Logger = [(''device'', ''C4:7C:8D:00:00:01''), (''alias'', ''basil'')],
           Alias = ''basil''\<rparr>]
   \<and> \<lparr>peripheral = floraPeripheral ''C4:7C:8D:00:00:01'' [] [] [],
        Logger = [(''device'', ''C4:7C:8D:00:00:01''), (''alias'', ''basil'')],
        Alias = ''basil''\<rparr>
       \<in> set [\<lparr>peripheral = floraPeripheral ''C4:7C:8D:00:00:01'' [] [] [],
                Logger = [(''device'', ''C4:7C:8D:00:00:01''), (''alias'', ''basil'')],
                Alias = ''basil''\<rparr>]
   \<and> [''C4:7C:8D:00:00:01'' \<mapsto> \<lparr>Config.Alias = ''basil'', Ignore = False\<rparr>,
       ''C4:7C:8D:00:00:02'' \<mapsto> \<lparr>Config.Alias = [], Ignore = True\<rparr>]
         (ID (floraPeripheral ''C4:7C:8D:00:00:01'' [] [] []))
       = Some \<lparr>Config.Alias = ''basil'', Ignore = False\<rparr>
   \<and> \<not> Ignore \<lparr>Config.Alias = ''basil'', Ignore = False\<rparr>"
proof -
  have d: "Discover 10000000000
     [''C4:7C:8D:00:00:01'' \<mapsto> \<lparr>Config.Alias = ''basil'', Ignore = False\<rparr>,
      ''C4:7C:8D:00:00:02'' \<mapsto> \<lparr>Config.Alias = [], Ignore = True\<rparr>]
     [] None
     (\<lambda>t. [floraPeripheral ''C4:7C:8D:00:00:02'' [] [] [],
            floraPeripheral ''C4:7C:8D:00:00:01'' [] [] []])
   = Inr [\<lparr>peripheral = floraPeripheral ''C4:7C:8D:00:00:01'' [] [] [],
           Logger = [(''device'', ''C4:7C:8D:00:00:01''), (''alias'', ''basil'')],
           Alias = ''basil''\<rparr>]"
    by (simp add: Discover_def PeripheralDiscovered_def floraPeripheral_def floraDeviceNames_def
        fldDevice_def fldAlias_def)
  have m: "\<lparr>peripheral = floraPeripheral ''C4:7C:8D:00:00:01'' [] [] [],
        Logger = [(''device'', ''C4:7C:8D:00:00:01''), (''alias'', ''basil'')],
        Alias = ''basil''\<rparr>
       \<in> set [\<lparr>peripheral = floraPeripheral ''C4:7C:8D:00:00:01'' [] [] [],
                Logger = [(''device'', ''C4:7C:8D:00:00:01''), (''alias'', ''basil'')],
                Alias = ''basil''\<rparr>]"
    by simp
  have c: "[''C4:7C:8D:00:00:01'' \<mapsto> \<lparr>Config.Alias = ''basil'', Ignore = False\<rparr>,
       ''C4:7C:8D:00:00:02'' \<mapsto> \<lparr>Config.Alias = [], Ignore = True\<rparr>]
         (ID (peripheral \<lparr>peripheral = floraPeripheral ''C4:7C:8D:00:00:01'' [] [] [],
        Logger = [(''device'', ''C4:7C:8D:00:00:01''), (''alias'', ''basil'')],
        Alias = ''basil''\<rparr>))
       = Some \<lparr>Config.Alias = ''basil'', Ignore = False\<rparr>"
    by (simp add: floraPeripheral_def)
  from Discover_never_ignored [OF d m c] d m c show ?thesis
    by (simp add: floraPeripheral_def)
qed

text \<open>
  C7: when \<^verbatim>\<open>FetchReadings\<close> returns an error for a device of the roster, the tick
  logs the failure and goes on with the devices after it: \<^verbatim>\<open>FetchReadings\<close> is called
  on each of them, in order.
\<close>

theorem pollTick_failure_continues:
  assumes "roster = before @ device # after"
    and "errOut (FetchReadings device) = Some err"
  shows "pollTick roster
           = pollTick before
             @ [CallFetchReadings device (effects (FetchReadings device)),
                DeviceLog device Error ''Failed to fetch readings from device'' [E err]]
             @ pollTick after
         \<and> fetchCalls (pollTick after) = after"
  using assms by (simp add: pollTick_append fetchCalls_pollTick Let_def)

text \<open>A roster whose first device fails: the second device is still polled.\<close>

theorem pollTick_failure_continues_witness:
  "[deviceOf (brokenPeripheral ''C4:7C:8D:00:00:02''),
    deviceOf (floraPeripheral ''C4:7C:8D:00:00:01'' [0x33, 0x35, 0x38] firmware_2_6_6 sensorPayload)]
     = [] @ deviceOf (brokenPeripheral ''C4:7C:8D:00:00:02'')
          # [deviceOf (floraPeripheral ''C4:7C:8D:00:00:01'' [0x33, 0x35, 0x38] firmware_2_6_6 sensorPayload)]
   \<and> errOut (FetchReadings (deviceOf (brokenPeripheral ''C4:7C:8D:00:00:02''))) = Some (TransportError 1)
   \<and> pollTick
        [deviceOf (brokenPeripheral ''C4:7C:8D:00:00:02''),
         deviceOf (floraPeripheral ''C4:7C:8D:00:00:01'' [0x33, 0x35, 0x38] firmware_2_6_6 sensorPayload)]
       = [CallFetchReadings (deviceOf (brokenPeripheral ''C4:7C:8D:00:00:02''))
            (effects (FetchReadings (deviceOf (brokenPeripheral ''C4:7C:8D:00:00:02'')))),
          DeviceLog (deviceOf (brokenPeripheral ''C4:7C:8D:00:00:02'')) Error
            ''Failed to fetch readings from device'' [E (TransportError 1)]]
         @ pollTick
             [deviceOf (floraPeripheral ''C4:7C:8D:00:00:01'' [0x33, 0x35, 0x38] firmware_2_6_6 sensorPayload)]
   \<and> fetchCalls (pollTick
         [deviceOf (floraPeripheral ''C4:7C:8D:00:00:01'' [0x33, 0x35, 0x38] firmware_2_6_6 sensorPayload)])
       = [deviceOf (floraPeripheral ''C4:7C:8D:00:00:01'' [0x33, 0x35, 0x38] firmware_2_6_6 sensorPayload)]"
proof -
  have r: "[deviceOf (brokenPeripheral ''C4:7C:8D:00:00:02''),
    deviceOf (floraPeripheral ''C4:7C:8D:00:00:01'' [0x33, 0x35, 0x38] firmware_2_6_6 sensorPayload)]
     = [] @ deviceOf (brokenPeripheral ''C4:7C:8D:00:00:02'')
          # [deviceOf (floraPeripheral ''C4:7C:8D:00:00:01'' [0x33, 0x35, 0x38] firmware_2_6_6 sensorPayload)]"
    by simp
  have e: "errOut (FetchReadings (deviceOf (brokenPeripheral ''C4:7C:8D:00:00:02''))) = Some (TransportError 1)"
    by code_simp
  from pollTick_failure_continues [OF r e] e show ?thesis
    by simp
qed

end
